theory Spec2Isabelle
  imports Complex_Main "HOL-Library.Sublist" "HOL-Library.Log_Nat"
begin

section \<open>JavaScript values\<close>

text \<open>
  The three scripts (\<^verbatim>\<open>comprehensive-health-check.js\<close>, \<^verbatim>\<open>test-all-features.js\<close>,
  \<^verbatim>\<open>test-complete-flow.js\<close>) drive a backend over HTTP and inspect decoded JSON bodies.
  A value is what \<^verbatim>\<open>JSON.parse\<close> can return, plus \<^verbatim>\<open>undefined\<close> (the result of reading
  a property that is not there). An object carries its own properties in order.
\<close>

datatype jsval =
    Undefined
  | Null
  | Bool bool
  | Num rat
  | Str string
  | Arr "jsval list"
  | Obj "(string \<times> jsval) list"

text \<open>Truthiness, as \<^verbatim>\<open>if (v)\<close>, \<^verbatim>\<open>v && ...\<close> and \<^verbatim>\<open>v ? a : b\<close> read a value.\<close>

fun truthy :: "jsval \<Rightarrow> bool" where
  "truthy Undefined = False"
| "truthy Null = False"
| "truthy (Bool b) = b"
| "truthy (Num r) = (r \<noteq> 0)"
| "truthy (Str s) = (s \<noteq> [])"
| "truthy (Arr xs) = True"
| "truthy (Obj kvs) = True"

text \<open>
  What a \<^verbatim>\<open>throw\<close> carries: an \<^verbatim>\<open>Error\<close> with its message (transport errors, and the
  \<^verbatim>\<open>new Error('Failed to parse response: ' + ...)\<close> of \<^verbatim>\<open>test-complete-flow.js\<close>), the
  \<^verbatim>\<open>TypeError\<close> the engine raises on a property read, or the \<^verbatim>\<open>SyntaxError\<close> of
  \<^verbatim>\<open>JSON.parse\<close> (the messages of these two are the engine's own text and are not modelled).
\<close>

datatype exn = Error string | TypeError | SyntaxError

text \<open>
  Reading a property \<^verbatim>\<open>v.k\<close>. On \<^verbatim>\<open>null\<close> and \<^verbatim>\<open>undefined\<close> the engine throws a
  \<^verbatim>\<open>TypeError\<close>; on an object the own property or \<^verbatim>\<open>undefined\<close>. The scripts read the keys
  \<^verbatim>\<open>success\<close>, \<^verbatim>\<open>uniqueId\<close>, \<^verbatim>\<open>token\<close>, \<^verbatim>\<open>message\<close>, \<^verbatim>\<open>data\<close>, \<^verbatim>\<open>documents\<close>,
  \<^verbatim>\<open>transactionHash\<close>, ... this way; none of them is a built-in property of a string, a
  number, a boolean or an array, so there the read gives \<^verbatim>\<open>undefined\<close>.
\<close>

fun getp :: "jsval \<Rightarrow> string \<Rightarrow> exn + jsval" where
  "getp Undefined k = Inl TypeError"
| "getp Null k = Inl TypeError"
| "getp (Obj kvs) k = Inr (case map_of kvs k of None \<Rightarrow> Undefined | Some v \<Rightarrow> v)"
| "getp (Bool b) k = Inr Undefined"
| "getp (Num r) k = Inr Undefined"
| "getp (Str s) k = Inr Undefined"
| "getp (Arr xs) k = Inr Undefined"

text \<open>\<^verbatim>\<open>s.includes(k)\<close> on strings.\<close>

fun str_includes :: "string \<Rightarrow> string \<Rightarrow> bool" where
  "str_includes [] k = (k = [])"
| "str_includes (c # cs) k = (prefix k (c # cs) \<or> str_includes cs k)"


section \<open>The environment: transports, decoder, console\<close>

text \<open>
  A request as the scripts issue it.
  \<^item> \<open>ApiCall m p arg body token\<close>: \<^verbatim>\<open>makeRequest(m, p + arg, body, headers)\<close> to
    \<^verbatim>\<open>http://localhost:3000\<close>; \<open>arg\<close> is the value a template literal splices into the path
    (\<^verbatim>\<open>`/api/tourist/info/${testUniqueId}`\<close>), \<open>body\<close> the object literal sent (\<open>Null\<close> for
    none), \<open>token\<close> the value spliced into the \<^verbatim>\<open>Authorization: Bearer\<close> header when one is set.
  \<^item> \<open>PageGet secure p\<close>: a \<^verbatim>\<open>GET\<close> of a page, over \<^verbatim>\<open>https\<close> on port 443 (\<open>secure\<close>) or
    over \<^verbatim>\<open>http\<close> on port 80.
  \<^item> \<open>FormSubmit uid file\<close>: the multipart \<^verbatim>\<open>form.submit\<close> to
    \<^verbatim>\<open>/api/tourist/upload-document\<close> with the field \<^verbatim>\<open>uniqueId\<close> and the named document.
\<close>

datatype request =
    ApiCall string string "jsval option" jsval "jsval option"
  | PageGet bool string
  | FormSubmit jsval string

text \<open>
  What a transport hands back: the \<^verbatim>\<open>'error'\<close> event (connection refused, reset, ...) or a
  complete response, its status code and the body text.
\<close>

datatype reply = ConnError string | Response nat string

text \<open>
  The collaborators the scripts do not define: the backend (its reply may depend on every
  request sent before), \<^verbatim>\<open>JSON.parse\<close> (\<open>None\<close> when it throws \<^verbatim>\<open>SyntaxError\<close>), the
  outcome of \<^verbatim>\<open>exec('docker-compose ps')\<close> (whether it reported an error, and its stdout),
  the engine's conversion of a string, an array or an object to a number, as far as one
  probe needs it (whether the number is above zero), and \<^verbatim>\<open>form.append('uniqueId', v)\<close> of
  the \<^verbatim>\<open>form-data\<close> library (the exception it throws when it does not take the value \<open>v\<close>,
  \<open>None\<close> when it takes it).
\<close>

record env =
  server :: "request list \<Rightarrow> request \<Rightarrow> reply"
  JSON_parse :: "string \<Rightarrow> jsval option"
  docker_ps :: "bool \<times> string"
  to_number_positive :: "jsval \<Rightarrow> bool"
  form_append :: "jsval \<Rightarrow> exn option"

text \<open>
  A console line: the text of the \<^verbatim>\<open>console.log\<close> call (without its emoji and indentation)
  and the values it prints after it. Banners, headings and the blocks of URLs and hints are
  left out.
\<close>

datatype logarg = V jsval | E exn

type_synonym line = "string \<times> logarg list"

text \<open>
  The state of a run: the requests issued so far, the console, the module-level variables
  \<^verbatim>\<open>testUniqueId\<close> and \<^verbatim>\<open>authToken\<close> (the Run Context; both start as \<^verbatim>\<open>null\<close>) and the files
  the script has written.
\<close>

record world =
  net :: "request list"
  console :: "line list"
  testUniqueId :: jsval
  authToken :: jsval
  files :: "string list"

definition world0 :: world where
  "world0 = \<lparr>net = [], console = [], testUniqueId = Null, authToken = Null, files = []\<rparr>"

definition say :: "line \<Rightarrow> world \<Rightarrow> world" where
  "say l w = w\<lparr>console := console w @ [l]\<rparr>"

text \<open>One round trip: the request is appended to the trace and the backend answers.\<close>

definition transmit :: "env \<Rightarrow> request \<Rightarrow> world \<Rightarrow> reply \<times> world" where
  "transmit ev rq w = (server ev (net w) rq, w\<lparr>net := net w @ [rq]\<rparr>)"


section \<open>comprehensive-health-check.js\<close>

subsection \<open>makeRequest and makeHTTPSRequest\<close>

record response =
  status :: nat
  data :: jsval
  raw :: string

text \<open>
  \<^verbatim>\<open>makeRequest\<close> (lines 23-64): rejects on a transport error; otherwise resolves, with the
  decoded body as \<^verbatim>\<open>data\<close>, or with the body text itself when \<^verbatim>\<open>JSON.parse\<close> throws.
\<close>

definition makeRequest ::
  "env \<Rightarrow> string \<Rightarrow> string \<Rightarrow> jsval option \<Rightarrow> jsval \<Rightarrow> jsval option \<Rightarrow> world
    \<Rightarrow> (exn + response) \<times> world" where
  "makeRequest ev m p arg body token w =
     (case transmit ev (ApiCall m p arg body token) w of
        (ConnError msg, w') \<Rightarrow> (Inl (Error msg), w')
      | (Response st txt, w') \<Rightarrow>
          (case JSON_parse ev txt of
             Some v \<Rightarrow> (Inr \<lparr>status = st, data = v, raw = txt\<rparr>, w')
           | None \<Rightarrow> (Inr \<lparr>status = st, data = Str txt, raw = txt\<rparr>, w')))"

text \<open>
  What \<^verbatim>\<open>makeHTTPSRequest\<close> resolves with: status and text, and \<^verbatim>\<open>protocol: 'HTTP'\<close> only
  when the answer came over the fallback.
\<close>

record page =
  pstatus :: nat
  pdata :: string
  protocol :: "string option"

text \<open>
  \<^verbatim>\<open>makeHTTPSRequest\<close> (lines 67-104): the request goes out over https; its \<^verbatim>\<open>'error'\<close>
  handler repeats it over http, and rejects when that fails too.
\<close>

definition makeHTTPSRequest :: "env \<Rightarrow> string \<Rightarrow> world \<Rightarrow> (exn + page) \<times> world" where
  "makeHTTPSRequest ev p w =
     (case transmit ev (PageGet True p) w of
        (Response st txt, w') \<Rightarrow> (Inr \<lparr>pstatus = st, pdata = txt, protocol = None\<rparr>, w')
      | (ConnError msg, w') \<Rightarrow>
          (case transmit ev (PageGet False p) w' of
             (Response st txt, w'') \<Rightarrow>
               (Inr \<lparr>pstatus = st, pdata = txt, protocol = Some ''HTTP''\<rparr>, w'')
           | (ConnError msg', w'') \<Rightarrow> (Inl (Error msg'), w'')))"

text \<open>The test \<^verbatim>\<open>response.status === 200 && response.data.success\<close>, which may throw.\<close>

definition ok_success :: "response \<Rightarrow> exn + bool" where
  "ok_success r =
     (if status r = 200
      then (case getp (data r) ''success'' of Inl e \<Rightarrow> Inl e | Inr v \<Rightarrow> Inr (truthy v))
      else Inr False)"


subsection \<open>Stage reports\<close>

text \<open>
  Every stage builds an object \<^verbatim>\<open>results\<close> and assigns one boolean per probe. An object
  keeps its keys in the order of their first assignment.
\<close>

type_synonym results = "(string \<times> bool) list"

fun assign :: "string \<Rightarrow> 'v \<Rightarrow> (string \<times> 'v) list \<Rightarrow> (string \<times> 'v) list" where
  "assign k v [] = [(k, v)]"
| "assign k v ((k', v') # kvs) = (if k' = k then (k, v) # kvs else (k', v') # assign k v kvs)"

text \<open>
  How an \<^verbatim>\<open>async\<close> function ends: it returns, it throws (its promise rejects), or the
  promise it awaits is never settled and it does not come back.
\<close>

datatype 'a completion = Returned 'a | Threw exn | Hung

text \<open>
  A probe is a \<^verbatim>\<open>try\<close> block whose branches each end in \<^verbatim>\<open>results.k = true\<close> or
  \<^verbatim>\<open>results.k = false\<close>, and a \<^verbatim>\<open>catch\<close> that logs and assigns \<^verbatim>\<open>false\<close>. The block is
  modelled as a function that gives the boolean or the exception, with the state as it is at
  that point; \<open>guarded\<close> is the \<^verbatim>\<open>try\<close>/\<^verbatim>\<open>catch\<close> around it.
\<close>

definition guarded ::
  "string \<Rightarrow> string \<Rightarrow> (world \<Rightarrow> (exn + bool) \<times> world) \<Rightarrow> results \<times> world \<Rightarrow> results \<times> world" where
  "guarded k catch_msg block = (\<lambda>(rs, w).
     case block w of
       (Inr b, w') \<Rightarrow> (assign k b rs, w')
     | (Inl e, w') \<Rightarrow> (assign k False rs, say (catch_msg, [E e]) w'))"

text \<open>The \<^verbatim>\<open>else\<close> branch of a probe whose prerequisite is missing (lines 235-238 and alike).\<close>

definition skipped :: "string \<Rightarrow> string \<Rightarrow> results \<times> world \<Rightarrow> results \<times> world" where
  "skipped k why = (\<lambda>(rs, w). (assign k False rs, say (why, []) w))"

subsection \<open>testInfrastructure (lines 107-187)\<close>

definition docker_probe :: "env \<Rightarrow> results \<times> world \<Rightarrow> results \<times> world" where
  "docker_probe ev = (\<lambda>(rs, w).
     case docker_ps ev of (err, out) \<Rightarrow>
       if \<not> err \<and> str_includes out ''Up'' \<and> str_includes out ''healthy''
       then (assign ''docker'' True rs, say (''Docker containers running and healthy'', []) w)
       else (assign ''docker'' False rs, say (''Docker containers issue'', []) w))"

definition backend_probe :: "env \<Rightarrow> results \<times> world \<Rightarrow> results \<times> world" where
  "backend_probe ev = (\<lambda>(rs, w).
     case makeRequest ev ''GET'' ''/api/health'' None Null None w of
       (Inr r, w') \<Rightarrow>
         if status r = 200
         then (assign ''backend'' True rs, say (''Backend API responding'', []) w')
         else (assign ''backend'' True rs,
               say (''Backend API responding but no health endpoint'', []) w')
     | (Inl e, w') \<Rightarrow> (assign ''backend'' False rs, say (''Backend API not accessible'', []) w'))"

definition blockchain_block :: "env \<Rightarrow> world \<Rightarrow> (exn + bool) \<times> world" where
  "blockchain_block ev w =
     (case makeRequest ev ''POST'' ''/api/tourist/register'' None
             (Obj [(''name'', Str ''Health Check Tourist''), (''nationality'', Str ''Test'')])
             None w of
        (Inl e, w') \<Rightarrow> (Inl e, w')
      | (Inr r, w') \<Rightarrow>
          (case ok_success r of
             Inl e \<Rightarrow> (Inl e, w')
           | Inr True \<Rightarrow>
               (case getp (data r) ''uniqueId'' of
                  Inl e \<Rightarrow> (Inl e, say (''Blockchain connected and responsive'', []) w')
                | Inr u \<Rightarrow>
                    (Inr True,
                     (say (''Blockchain connected and responsive'', []) w')\<lparr>testUniqueId := u\<rparr>))
           | Inr False \<Rightarrow> (Inr False, say (''Blockchain connection issue'', []) w')))"

definition blockchain_probe :: "env \<Rightarrow> results \<times> world \<Rightarrow> results \<times> world" where
  "blockchain_probe ev = (\<lambda>(rs, w).
     case blockchain_block ev w of
       (Inr b, w') \<Rightarrow> (assign ''blockchain'' b rs, w')
     | (Inl e, w') \<Rightarrow> (assign ''blockchain'' False rs, say (''Blockchain not accessible'', []) w'))"

text \<open>The page test \<^verbatim>\<open>response.status === 200 && response.data.includes(keyword)\<close>.\<close>

definition page_ok :: "page \<Rightarrow> string \<Rightarrow> bool" where
  "page_ok pg keyword = (pstatus pg = 200 \<and> str_includes (pdata pg) keyword)"

definition frontend_probe :: "env \<Rightarrow> results \<times> world \<Rightarrow> results \<times> world" where
  "frontend_probe ev = (\<lambda>(rs, w).
     case makeHTTPSRequest ev ''/tourist-auth.html'' w of
       (Inr pg, w') \<Rightarrow>
         if page_ok pg ''Tourist Portal''
         then (assign ''frontend'' True rs, say (''Frontend serving correctly'', []) w')
         else (assign ''frontend'' False rs, say (''Frontend not serving correctly'', []) w')
     | (Inl e, w') \<Rightarrow> (assign ''frontend'' False rs, say (''Frontend not accessible'', []) w'))"

definition testInfrastructure :: "env \<Rightarrow> world \<Rightarrow> results completion \<times> world" where
  "testInfrastructure ev w =
     (case frontend_probe ev (blockchain_probe ev (backend_probe ev (docker_probe ev ([], w)))) of
        (rs, w') \<Rightarrow> (Returned rs, w'))"


subsection \<open>testCoreFeatures (lines 190-310)\<close>

definition registration_block :: "env \<Rightarrow> world \<Rightarrow> (exn + bool) \<times> world" where
  "registration_block ev w =
     (case makeRequest ev ''POST'' ''/api/tourist/register'' None
             (Obj [(''name'', Str ''Feature Test Tourist''), (''nationality'', Str ''Test Country''),
                   (''email'', Str ''test@example.com''), (''phone'', Str ''+1234567890'')])
             None w of
        (Inl e, w') \<Rightarrow> (Inl e, w')
      | (Inr r, w') \<Rightarrow>
          (case ok_success r of
             Inl e \<Rightarrow> (Inl e, w')
           | Inr True \<Rightarrow>
               (case getp (data r) ''uniqueId'' of
                  Inl e \<Rightarrow> (Inl e, w')
                | Inr u \<Rightarrow>
                    (Inr True, say (''Registration successful (ID: )'', [V u]) (w'\<lparr>testUniqueId := u\<rparr>)))
           | Inr False \<Rightarrow> (Inr False, say (''Registration failed'', []) w')))"

definition registration_probe :: "env \<Rightarrow> results \<times> world \<Rightarrow> results \<times> world" where
  "registration_probe ev = guarded ''registration'' ''Registration error:'' (registration_block ev)"

text \<open>
  A \<^verbatim>\<open>GET\<close> of \<open>p\<close> with \<^verbatim>\<open>testUniqueId\<close> spliced in, judged by
  \<^verbatim>\<open>status === 200 && data.success\<close> (\<open>need_success\<close>) or by \<^verbatim>\<open>status === 200\<close> alone.
\<close>

definition get_block ::
  "env \<Rightarrow> string \<Rightarrow> bool \<Rightarrow> string \<Rightarrow> string \<Rightarrow> world \<Rightarrow> (exn + bool) \<times> world" where
  "get_block ev p need_success yes no w =
     (case makeRequest ev ''GET'' p (Some (testUniqueId w)) Null None w of
        (Inl e, w') \<Rightarrow> (Inl e, w')
      | (Inr r, w') \<Rightarrow>
          (case (if need_success then ok_success r else Inr (status r = 200)) of
             Inl e \<Rightarrow> (Inl e, w')
           | Inr True \<Rightarrow> (Inr True, say (yes, []) w')
           | Inr False \<Rightarrow> (Inr False, say (no, []) w')))"

definition infoRetrieval_probe :: "env \<Rightarrow> results \<times> world \<Rightarrow> results \<times> world" where
  "infoRetrieval_probe ev = (\<lambda>(rs, w).
     if truthy (testUniqueId w)
     then guarded ''infoRetrieval'' ''Info retrieval error:''
            (get_block ev ''/api/tourist/info/'' True
               ''Info retrieval working'' ''Info retrieval failed'') (rs, w)
     else skipped ''infoRetrieval'' ''Skipped (no test ID)'' (rs, w))"

text \<open>
  The upload (lines 240-286). The promise the stage awaits is resolved in the \<^verbatim>\<open>'end'\<close>
  handler of the response only: when \<^verbatim>\<open>form.submit\<close> calls back with an error, the branch
  logs, assigns \<^verbatim>\<open>false\<close> and returns without calling \<^verbatim>\<open>resolve\<close>, so the stage never comes
  back. The status code of the upload's response is not looked at. When
  \<^verbatim>\<open>form.append('uniqueId', testUniqueId)\<close> throws, the \<^verbatim>\<open>catch\<close> of lines 279-282 logs,
  assigns \<^verbatim>\<open>false\<close> and the stage goes on; nothing has been sent then.
\<close>

definition documentUpload_probe :: "env \<Rightarrow> results \<times> world \<Rightarrow> results completion \<times> world" where
  "documentUpload_probe ev = (\<lambda>(rs, w).
     if truthy (testUniqueId w)
     then
       (case form_append ev (testUniqueId w) of
          Some e \<Rightarrow> (Returned (assign ''documentUpload'' False rs),
                     say (''Document upload error:'', [E e]) w)
        | None \<Rightarrow>
       (case transmit ev (FormSubmit (testUniqueId w) ''test-document.txt'') w of
          (ConnError msg, w') \<Rightarrow> (Hung, say (''Document upload error:'', [E (Error msg)]) w')
        | (Response st txt, w') \<Rightarrow>
            (case JSON_parse ev txt of
               None \<Rightarrow> (Returned (assign ''documentUpload'' False rs),
                         say (''Document upload parse error'', []) w')
             | Some v \<Rightarrow>
                 (case getp v ''success'' of
                    Inl e \<Rightarrow> (Returned (assign ''documentUpload'' False rs),
                              say (''Document upload parse error'', []) w')
                  | Inr s \<Rightarrow>
                      if truthy s
                      then (Returned (assign ''documentUpload'' True rs),
                            say (''Document upload working'', []) w')
                      else (Returned (assign ''documentUpload'' False rs),
                            say (''Document upload failed'', []) w')))))
     else (case skipped ''documentUpload'' ''Skipped (no test ID)'' (rs, w) of
             (rs', w') \<Rightarrow> (Returned rs', w')))"

definition documentRetrieval_probe :: "env \<Rightarrow> results \<times> world \<Rightarrow> results \<times> world" where
  "documentRetrieval_probe ev = (\<lambda>(rs, w).
     if truthy (testUniqueId w)
     then guarded ''documentRetrieval'' ''Document retrieval error:''
            (get_block ev ''/api/tourist/documents/'' False
               ''Document retrieval working'' ''Document retrieval failed'') (rs, w)
     else skipped ''documentRetrieval'' ''Skipped (no test ID)'' (rs, w))"

definition testCoreFeatures :: "env \<Rightarrow> world \<Rightarrow> results completion \<times> world" where
  "testCoreFeatures ev w =
     (case documentUpload_probe ev (infoRetrieval_probe ev (registration_probe ev ([], w))) of
        (Returned rs, w') \<Rightarrow>
          (case documentRetrieval_probe ev (rs, w') of (rs', w'') \<Rightarrow> (Returned rs', w''))
      | (Threw e, w') \<Rightarrow> (Threw e, w')
      | (Hung, w') \<Rightarrow> (Hung, w'))"

subsection \<open>testAuthorityFeatures (lines 313-386)\<close>

definition authorityLogin_block :: "env \<Rightarrow> world \<Rightarrow> (exn + bool) \<times> world" where
  "authorityLogin_block ev w =
     (case makeRequest ev ''POST'' ''/api/authority/login'' None
             (Obj [(''walletAddress'', Str ''0x9bBD3535c5582A4b15a529Bb3794688728988D41''),
                   (''passphrase'', Str ''vikrantaTBS$2025'')])
             None w of
        (Inl e, w') \<Rightarrow> (Inl e, w')
      | (Inr r, w') \<Rightarrow>
          (case ok_success r of
             Inl e \<Rightarrow> (Inl e, w')
           | Inr True \<Rightarrow>
               (case getp (data r) ''token'' of
                  Inl e \<Rightarrow> (Inl e, w')
                | Inr t \<Rightarrow> (Inr True, say (''Authority login working'', []) (w'\<lparr>authToken := t\<rparr>)))
           | Inr False \<Rightarrow>
               (case getp (data r) ''message'' of
                  Inl e \<Rightarrow> (Inl e, w')
                | Inr m \<Rightarrow> (Inr False, say (''Authority login failed:'', [V m]) w'))))"

definition authorityLogin_probe :: "env \<Rightarrow> results \<times> world \<Rightarrow> results \<times> world" where
  "authorityLogin_probe ev =
     guarded ''authorityLogin'' ''Authority login error:'' (authorityLogin_block ev)"

text \<open>The pending list sends the \<^verbatim>\<open>Authorization\<close> header when there is a token, and runs anyway.\<close>

definition pendingList_block :: "env \<Rightarrow> world \<Rightarrow> (exn + bool) \<times> world" where
  "pendingList_block ev w =
     (case makeRequest ev ''GET'' ''/api/authority/pending'' None Null
             (if truthy (authToken w) then Some (authToken w) else None) w of
        (Inl e, w') \<Rightarrow> (Inl e, w')
      | (Inr r, w') \<Rightarrow>
          if status r = 200 then (Inr True, say (''Pending list accessible'', []) w')
          else (Inr False, say (''Pending list failed'', []) w'))"

definition pendingList_probe :: "env \<Rightarrow> results \<times> world \<Rightarrow> results \<times> world" where
  "pendingList_probe ev = guarded ''pendingList'' ''Pending list error:'' (pendingList_block ev)"

definition verification_block :: "env \<Rightarrow> world \<Rightarrow> (exn + bool) \<times> world" where
  "verification_block ev w =
     (case makeRequest ev ''POST'' ''/api/authority/verify'' None
             (Obj [(''uniqueId'', testUniqueId w), (''validityDays'', Num 365),
                   (''notes'', Str ''Health check verification'')])
             (Some (authToken w)) w of
        (Inl e, w') \<Rightarrow> (Inl e, w')
      | (Inr r, w') \<Rightarrow>
          (case ok_success r of
             Inl e \<Rightarrow> (Inl e, w')
           | Inr True \<Rightarrow> (Inr True, say (''Tourist verification working'', []) w')
           | Inr False \<Rightarrow> (Inr False, say (''Tourist verification failed'', []) w')))"

definition verification_probe :: "env \<Rightarrow> results \<times> world \<Rightarrow> results \<times> world" where
  "verification_probe ev = (\<lambda>(rs, w).
     if truthy (testUniqueId w) \<and> truthy (authToken w)
     then guarded ''verification'' ''Tourist verification error:'' (verification_block ev) (rs, w)
     else skipped ''verification'' ''Skipped (no auth token or test ID)'' (rs, w))"

definition testAuthorityFeatures :: "env \<Rightarrow> world \<Rightarrow> results completion \<times> world" where
  "testAuthorityFeatures ev w =
     (case verification_probe ev (pendingList_probe ev (authorityLogin_probe ev ([], w))) of
        (rs, w') \<Rightarrow> (Returned rs, w'))"

subsection \<open>testAdvancedFeatures (lines 389-438)\<close>

definition qrCode_probe :: "env \<Rightarrow> results \<times> world \<Rightarrow> results \<times> world" where
  "qrCode_probe ev = (\<lambda>(rs, w).
     if truthy (testUniqueId w)
     then guarded ''qrCode'' ''QR code error:''
            (get_block ev ''/api/tourist/qrcode/'' True
               ''QR code generation working'' ''QR code generation failed'') (rs, w)
     else skipped ''qrCode'' ''Skipped (no test ID)'' (rs, w))"

definition pvcCard_probe :: "env \<Rightarrow> results \<times> world \<Rightarrow> results \<times> world" where
  "pvcCard_probe ev = (\<lambda>(rs, w).
     if truthy (testUniqueId w)
     then guarded ''pvcCard'' ''PVC card error:''
            (get_block ev ''/api/tourist/pvc-card/'' False
               ''PVC card generation working'' ''PVC card generation failed'') (rs, w)
     else skipped ''pvcCard'' ''Skipped (no test ID)'' (rs, w))"

definition testAdvancedFeatures :: "env \<Rightarrow> world \<Rightarrow> results completion \<times> world" where
  "testAdvancedFeatures ev w =
     (case pvcCard_probe ev (qrCode_probe ev ([], w)) of (rs, w') \<Rightarrow> (Returned rs, w'))"


subsection \<open>testFrontendPages (lines 441-475)\<close>

text \<open>\<^verbatim>\<open>toLowerCase\<close> and \<^verbatim>\<open>toUpperCase\<close> on the ASCII letters the page and probe names use.\<close>

definition lower_char :: "char \<Rightarrow> char" where
  "lower_char c =
     (case map_of (zip ''ABCDEFGHIJKLMNOPQRSTUVWXYZ'' ''abcdefghijklmnopqrstuvwxyz'') c of
        None \<Rightarrow> c
      | Some d \<Rightarrow> d)"

definition upper_char :: "char \<Rightarrow> char" where
  "upper_char c =
     (case map_of (zip ''abcdefghijklmnopqrstuvwxyz'' ''ABCDEFGHIJKLMNOPQRSTUVWXYZ'') c of
        None \<Rightarrow> c
      | Some d \<Rightarrow> d)"

definition is_upper :: "char \<Rightarrow> bool" where
  "is_upper c = (c \<in> set ''ABCDEFGHIJKLMNOPQRSTUVWXYZ'')"

text \<open>The key \<^verbatim>\<open>page.name.toLowerCase().replace(' ', '')\<close>: only the first blank goes.\<close>

definition page_key :: "string \<Rightarrow> string" where
  "page_key name = remove1 (CHR '' '') (map lower_char name)"

definition pages :: "(string \<times> string \<times> string) list" where
  "pages =
     [(''Home Page'', ''/'', ''VIKRANTA''),
      (''Portal'', ''/portal.html'', ''Tourist Registry Portal''),
      (''Tourist Auth'', ''/tourist-auth.html'', ''Tourist Portal''),
      (''Dashboard'', ''/dashboard-simple.html'', ''Tourist Dashboard''),
      (''Authority Login'', ''/authority-login.html'', ''Authority Login''),
      (''Authority Panel'', ''/authority-panel.html'', ''Authority Dashboard'')]"

definition page_probe ::
  "env \<Rightarrow> string \<times> string \<times> string \<Rightarrow> results \<times> world \<Rightarrow> results \<times> world" where
  "page_probe ev = (\<lambda>(name, path, keyword) (rs, w).
     case makeHTTPSRequest ev path w of
       (Inr pg, w') \<Rightarrow>
         if page_ok pg keyword
         then (assign (page_key name) True rs, say (name @ '' accessible'', []) w')
         else (assign (page_key name) False rs, say (name @ '' issue'', []) w')
     | (Inl e, w') \<Rightarrow> (assign (page_key name) False rs, say (name @ '' error:'', [E e]) w'))"

definition testFrontendPages :: "env \<Rightarrow> world \<Rightarrow> results completion \<times> world" where
  "testFrontendPages ev w =
     (case fold (page_probe ev) pages ([], w) of (rs, w') \<Rightarrow> (Returned rs, w'))"

subsection \<open>generateFinalReport (lines 478-531)\<close>

text \<open>
  JavaScript numbers are IEEE 754 doubles. The counters are small integers and exact; the
  products \<^verbatim>\<open>totalTests * 0.8\<close> and \<^verbatim>\<open>totalTests * 0.6\<close> are not: the literal \<^verbatim>\<open>0.8\<close> is the
  double \<open>3602879701896397 / 2^52\<close>, the literal \<^verbatim>\<open>0.6\<close> is \<open>5404319552844595 / 2^53\<close>, and
  the product is rounded to 53 significant bits, ties to even. \<open>round53\<close> is that rounding
  on the numerator.
\<close>

definition round53 :: "nat \<Rightarrow> nat" where
  "round53 N =
     (let s = floorlog 2 N - 53; q = N div 2 ^ s; r = N mod 2 ^ s
      in if 2 ^ s < 2 * r \<or> (2 * r = 2 ^ s \<and> odd q) then (q + 1) * 2 ^ s else q * 2 ^ s)"

definition times_0_8 :: "nat \<Rightarrow> rat" where
  "times_0_8 n = of_nat (round53 (n * 3602879701896397)) / 2 ^ 52"

definition times_0_6 :: "nat \<Rightarrow> rat" where
  "times_0_6 n = of_nat (round53 (n * 5404319552844595)) / 2 ^ 53"

datatype tier = Excellent | Good | NeedsAttention

text \<open>Lines 508-514.\<close>

definition tier_of :: "nat \<Rightarrow> nat \<Rightarrow> tier" where
  "tier_of passedTests totalTests =
     (if times_0_8 totalTests \<le> of_nat passedTests then Excellent
      else if times_0_6 totalTests \<le> of_nat passedTests then Good
      else NeedsAttention)"

definition tier_line :: "tier \<Rightarrow> line" where
  "tier_line t =
     (case t of
        Excellent \<Rightarrow> (''EXCELLENT! Your project is running successfully!'', [])
      | Good \<Rightarrow> (''GOOD! Most features are working correctly.'', [])
      | NeedsAttention \<Rightarrow> (''NEEDS ATTENTION: Several components need fixing.'', []))"

text \<open>
  The label of a probe,
  \<^verbatim>\<open>test.charAt(0).toUpperCase() + test.slice(1).replace(/([A-Z])/g, ' $1')\<close>.
\<close>

fun spaced :: "string \<Rightarrow> string" where
  "spaced [] = []"
| "spaced (c # cs) = (if is_upper c then CHR '' '' # c # spaced cs else c # spaced cs)"

definition testName :: "string \<Rightarrow> string" where
  "testName t = (case t of [] \<Rightarrow> [] | c # cs \<Rightarrow> upper_char c # spaced cs)"

definition allResults ::
  "results \<Rightarrow> results \<Rightarrow> results \<Rightarrow> results \<Rightarrow> results \<Rightarrow> (string \<times> results) list" where
  "allResults infrastructure coreFeatures authorityFeatures advancedFeatures frontendPages =
     [(''Infrastructure'', infrastructure), (''Core Features'', coreFeatures),
      (''Authority Features'', authorityFeatures), (''Advanced Features'', advancedFeatures),
      (''Frontend Pages'', frontendPages)]"

text \<open>
  The two counters, \<^verbatim>\<open>totalTests\<close> and \<^verbatim>\<open>passedTests\<close>: both start at 0, and the inner loop
  (lines 496-502) does \<^verbatim>\<open>totalTests++; if (passed) passedTests++\<close> for every entry of every
  category.
\<close>

definition count_entry :: "string \<times> bool \<Rightarrow> nat \<times> nat \<Rightarrow> nat \<times> nat" where
  "count_entry = (\<lambda>(test, passed) (total, passedN).
     (total + 1, if passed then passedN + 1 else passedN))"

definition count_tests :: "(string \<times> results) list \<Rightarrow> nat \<times> nat" where
  "count_tests al = fold (\<lambda>(category, rs). fold count_entry rs) al (0, 0)"

definition totalTests :: "(string \<times> results) list \<Rightarrow> nat" where
  "totalTests al = fst (count_tests al)"

definition passedTests :: "(string \<times> results) list \<Rightarrow> nat" where
  "passedTests al = snd (count_tests al)"

definition entry_line :: "string \<times> bool \<Rightarrow> line" where
  "entry_line = (\<lambda>(test, passed). (testName test @ (if passed then '': PASS'' else '': FAIL''), []))"

definition category_lines :: "string \<times> results \<Rightarrow> line list" where
  "category_lines = (\<lambda>(category, rs). (category @ '':'', []) # map entry_line rs)"

text \<open>
  The lines the report prints: per category its heading and one line per probe, then the
  score (the rounded percentage is left out), the tier and the closing advice.
\<close>

definition report_lines :: "(string \<times> results) list \<Rightarrow> line list" where
  "report_lines al =
     (''COMPREHENSIVE PROJECT HEALTH REPORT'', []) #
     concat (map category_lines al) @
     [(''OVERALL SCORE: tests passed'',
        [V (Num (of_nat (passedTests al))), V (Num (of_nat (totalTests al)))]),
      tier_line (tier_of (passedTests al) (totalTests al))] @
     (if passedTests al = totalTests al
      then [(''All systems operational! Ready for production use.'', [])]
      else [(''Focus on fixing the failed components above.'', []),
            (''Check logs for specific error details.'', [])])"

definition generateFinalReport ::
  "results \<Rightarrow> results \<Rightarrow> results \<Rightarrow> results \<Rightarrow> results \<Rightarrow> world \<Rightarrow> world" where
  "generateFinalReport i c a d f w =
     w\<lparr>console := console w @ report_lines (allResults i c a d f)\<rparr>"

subsection \<open>runComprehensiveHealthCheck (lines 534-551)\<close>

text \<open>\<^verbatim>\<open>const x = await stage(); rest\<close> inside an \<^verbatim>\<open>async\<close> function.\<close>

fun await ::
  "'a completion \<times> world \<Rightarrow> ('a \<Rightarrow> world \<Rightarrow> 'b completion \<times> world) \<Rightarrow> 'b completion \<times> world" where
  "await (Returned x, w) k = k x w"
| "await (Threw e, w) k = (Threw e, w)"
| "await (Hung, w) k = (Hung, w)"

type_synonym stage = "world \<Rightarrow> results completion \<times> world"

text \<open>
  The orchestrator over any five stages: the \<^verbatim>\<open>try\<close> block awaits them in order and then
  prints the report; the \<^verbatim>\<open>catch\<close> logs the failure and the function returns.
\<close>

definition orchestrate_try ::
  "stage \<Rightarrow> stage \<Rightarrow> stage \<Rightarrow> stage \<Rightarrow> stage \<Rightarrow> world \<Rightarrow> unit completion \<times> world" where
  "orchestrate_try s1 s2 s3 s4 s5 w =
     await (s1 w) (\<lambda>i w1.
     await (s2 w1) (\<lambda>c w2.
     await (s3 w2) (\<lambda>a w3.
     await (s4 w3) (\<lambda>d w4.
     await (s5 w4) (\<lambda>f w5.
       (Returned (), generateFinalReport i c a d f w5))))))"

definition orchestrate ::
  "stage \<Rightarrow> stage \<Rightarrow> stage \<Rightarrow> stage \<Rightarrow> stage \<Rightarrow> world \<Rightarrow> unit completion \<times> world" where
  "orchestrate s1 s2 s3 s4 s5 w =
     (case orchestrate_try s1 s2 s3 s4 s5 w of
        (Threw e, w') \<Rightarrow> (Returned (), say (''Health check failed:'', [E e]) w')
      | (Returned u, w') \<Rightarrow> (Returned u, w')
      | (Hung, w') \<Rightarrow> (Hung, w'))"

definition runComprehensiveHealthCheck :: "env \<Rightarrow> world \<Rightarrow> unit completion \<times> world" where
  "runComprehensiveHealthCheck ev =
     orchestrate (testInfrastructure ev) (testCoreFeatures ev) (testAuthorityFeatures ev)
       (testAdvancedFeatures ev) (testFrontendPages ev)"



section \<open>test-all-features.js\<close>

text \<open>
  The probes of this script are functions that return their verdict; the runner stores it.
  Its \<^verbatim>\<open>makeRequest\<close> (lines 22-63) is the one above without the \<^verbatim>\<open>raw\<close> field, which no
  probe reads. Of the console, the line that states a probe's outcome is kept (with the
  value it prints, if any); lines that only print more fields of a response are left out,
  but where reading such a field throws, the throw is modelled.
\<close>

text \<open>A probe body inside \<^verbatim>\<open>try\<close>, and the \<^verbatim>\<open>catch\<close> that logs and returns \<^verbatim>\<open>false\<close>.\<close>

definition caught :: "string \<Rightarrow> (world \<Rightarrow> (exn + bool) \<times> world) \<Rightarrow> world \<Rightarrow> bool \<times> world" where
  "caught catch_msg block w =
     (case block w of
        (Inr b, w') \<Rightarrow> (b, w')
      | (Inl e, w') \<Rightarrow> (False, say (catch_msg, [E e]) w'))"

text \<open>
  The failure branch \<^verbatim>\<open>console.log(FAILED); console.log('Response:', response.data.message);
  return false\<close>; the read of \<^verbatim>\<open>message\<close> throws on a \<^verbatim>\<open>null\<close> body.
\<close>

definition failed_with :: "string \<Rightarrow> response \<Rightarrow> world \<Rightarrow> (exn + bool) \<times> world" where
  "failed_with msg r w =
     (case getp (data r) ''message'' of
        Inl e \<Rightarrow> (Inl e, say (msg, []) w)
      | Inr m \<Rightarrow> (Inr False, say (''Response:'', [V m]) (say (msg, []) w)))"

definition testData_all :: jsval where
  "testData_all =
     Obj [(''name'', Str ''Complete Test Tourist''), (''nationality'', Str ''Test Country''),
          (''email'', Str ''complete@test.com''), (''phone'', Str ''+1234567890''),
          (''passportNumber'', Str ''TEST123456''), (''dateOfBirth'', Str ''1990-01-01''),
          (''address'', Str ''Test Address, Test City'')]"

text \<open>Lines 66-97.\<close>

definition testRegistration_all :: "env \<Rightarrow> world \<Rightarrow> bool \<times> world" where
  "testRegistration_all ev =
     caught ''Registration: ERROR -'' (\<lambda>w.
       case makeRequest ev ''POST'' ''/api/tourist/register'' None testData_all None w of
         (Inl e, w') \<Rightarrow> (Inl e, w')
       | (Inr r, w') \<Rightarrow>
           (case ok_success r of
              Inl e \<Rightarrow> (Inl e, w')
            | Inr True \<Rightarrow>
                (case getp (data r) ''uniqueId'' of
                   Inl e \<Rightarrow> (Inl e, w')
                 | Inr u \<Rightarrow> (Inr True, say (''Registration: SUCCESS'', [V u]) (w'\<lparr>testUniqueId := u\<rparr>)))
            | Inr False \<Rightarrow> failed_with ''Registration: FAILED'' r w'))"

text \<open>
  Lines 100-122 (and lines 89-110 of \<^verbatim>\<open>test-complete-flow.js\<close>, with other texts): after
  the success line the probe prints \<^verbatim>\<open>response.data.data.name\<close>, which throws when
  \<^verbatim>\<open>response.data.data\<close> is \<^verbatim>\<open>null\<close> or missing.
\<close>

definition info_block ::
  "(world \<Rightarrow> (exn + response) \<times> world) \<Rightarrow> string
    \<Rightarrow> (response \<Rightarrow> world \<Rightarrow> (exn + bool) \<times> world) \<Rightarrow> world \<Rightarrow> (exn + bool) \<times> world" where
  "info_block fetch yes no w =
     (case fetch w of
        (Inl e, w') \<Rightarrow> (Inl e, w')
      | (Inr r, w') \<Rightarrow>
          (case ok_success r of
             Inl e \<Rightarrow> (Inl e, w')
           | Inr True \<Rightarrow>
               (case getp (data r) ''data'' of
                  Inl e \<Rightarrow> (Inl e, say (yes, []) w')
                | Inr d \<Rightarrow>
                    (case getp d ''name'' of
                       Inl e \<Rightarrow> (Inl e, say (yes, []) w')
                     | Inr n \<Rightarrow> (Inr True, say (yes, []) w')))
           | Inr False \<Rightarrow> no r w'))"

definition testLogin :: "env \<Rightarrow> world \<Rightarrow> bool \<times> world" where
  "testLogin ev =
     caught ''Login: ERROR -'' (\<lambda>w.
       info_block (makeRequest ev ''GET'' ''/api/tourist/info/'' (Some (testUniqueId w)) Null None)
         ''Login: SUCCESS'' (failed_with ''Login: FAILED'') w)"

text \<open>
  \<^verbatim>\<open>testDocumentUpload\<close> (lines 125-190). The probe writes \<^verbatim>\<open>test-passport.txt\<close>, submits
  it and resolves with \<^verbatim>\<open>false\<close> or with \<^verbatim>\<open>result.success\<close> as it is. \<^verbatim>\<open>fs.unlinkSync\<close>
  stands after the \<^verbatim>\<open>if\<close> on the decoded result only, inside the \<^verbatim>\<open>try\<close>. All of this
  happens in the executor of the promise the probe returns, with no \<^verbatim>\<open>try\<close> around the
  building of the form: when \<^verbatim>\<open>form.append('uniqueId', testUniqueId)\<close> throws, the file has
  been written, nothing is sent and the promise rejects. (Writing the file is taken to
  succeed.)
\<close>

definition testFilePath :: string where
  "testFilePath = ''test-passport.txt''"

definition writeFileSync :: "string \<Rightarrow> world \<Rightarrow> world" where
  "writeFileSync f w = w\<lparr>files := List.insert f (files w)\<rparr>"

definition unlinkSync :: "string \<Rightarrow> world \<Rightarrow> world" where
  "unlinkSync f w = w\<lparr>files := removeAll f (files w)\<rparr>"

definition testDocumentUpload :: "env \<Rightarrow> world \<Rightarrow> jsval completion \<times> world" where
  "testDocumentUpload ev w =
     (case form_append ev (testUniqueId w) of
        Some e \<Rightarrow> (Threw e, writeFileSync testFilePath w)
      | None \<Rightarrow>
     (case transmit ev (FormSubmit (testUniqueId w) testFilePath) (writeFileSync testFilePath w) of
        (ConnError msg, w') \<Rightarrow>
          (Returned (Bool False), say (''Document Upload: ERROR -'', [E (Error msg)]) w')
      | (Response st txt, w') \<Rightarrow>
          (case JSON_parse ev txt of
             None \<Rightarrow>
               (Returned (Bool False), say (''Document Upload: PARSE ERROR -'', [E SyntaxError]) w')
           | Some result \<Rightarrow>
               (case getp result ''success'' of
                  Inl e \<Rightarrow>
                    (Returned (Bool False), say (''Document Upload: PARSE ERROR -'', [E e]) w')
                | Inr s \<Rightarrow>
                    (Returned s,
                     unlinkSync testFilePath
                       (say (if truthy s then (''Document Upload: SUCCESS'', [])
                             else (''Document Upload: FAILED'', [])) w'))))))"


text \<open>
  Lines 193-224. With an array of documents the probe prints a field of each, which throws
  on a \<^verbatim>\<open>null\<close> element; a non-empty string has a positive \<^verbatim>\<open>length\<close> and no
  \<^verbatim>\<open>forEach\<close>, so the call throws. For any other value \<^verbatim>\<open>documents.length\<close> is
  \<^verbatim>\<open>undefined\<close> or, on an object, its own property \<^verbatim>\<open>length\<close>; a number there is compared as
  it is, \<^verbatim>\<open>undefined\<close> and \<^verbatim>\<open>null\<close> are not above zero, \<^verbatim>\<open>true\<close> is, and what the engine's
  number conversion makes of a string, an array or an object is the environment's. Where the length is above zero there, \<^verbatim>\<open>forEach\<close> is not a function and the
  call throws.
\<close>

datatype documents_walk = Walked | Walk_throws

definition walk_documents :: "(jsval \<Rightarrow> bool) \<Rightarrow> jsval \<Rightarrow> documents_walk" where
  "walk_documents coerced_positive documents =
     (case documents of
        Arr ds \<Rightarrow> if \<exists>d \<in> set ds. d = Null \<or> d = Undefined then Walk_throws else Walked
      | Str s \<Rightarrow> if s = [] then Walked else Walk_throws
      | Obj kvs \<Rightarrow>
          (case map_of kvs ''length'' of
             None \<Rightarrow> Walked
           | Some Undefined \<Rightarrow> Walked
           | Some Null \<Rightarrow> Walked
           | Some (Bool b) \<Rightarrow> if b then Walk_throws else Walked
           | Some (Num r) \<Rightarrow> if 0 < r then Walk_throws else Walked
           | Some v \<Rightarrow> if coerced_positive v then Walk_throws else Walked)
      | _ \<Rightarrow> Walked)"

definition testDocumentRetrieval :: "env \<Rightarrow> world \<Rightarrow> bool \<times> world" where
  "testDocumentRetrieval ev =
     caught ''Document Retrieval: ERROR -'' (\<lambda>w.
       case makeRequest ev ''GET'' ''/api/tourist/documents/'' (Some (testUniqueId w)) Null None w of
         (Inl e, w') \<Rightarrow> (Inl e, w')
       | (Inr r, w') \<Rightarrow>
           (case ok_success r of
              Inl e \<Rightarrow> (Inl e, w')
            | Inr True \<Rightarrow>
                (case getp (data r) ''documents'' of
                   Inl e \<Rightarrow> (Inl e, w')
                 | Inr documents \<Rightarrow>
                     (case walk_documents (to_number_positive ev) documents of
                        Walk_throws \<Rightarrow> (Inl TypeError, say (''Document Retrieval: SUCCESS'', []) w')
                      | Walked \<Rightarrow> (Inr True, say (''Document Retrieval: SUCCESS'', []) w')))
            | Inr False \<Rightarrow> failed_with ''Document Retrieval: FAILED'' r w'))"

text \<open>Lines 227-252.\<close>

definition testAuthorityLogin :: "env \<Rightarrow> world \<Rightarrow> bool \<times> world" where
  "testAuthorityLogin ev =
     caught ''Authority Login: ERROR -'' (\<lambda>w.
       case makeRequest ev ''POST'' ''/api/authority/login'' None
              (Obj [(''walletAddress'', Str ''0x9bBD3535c5582A4b15a529Bb3794688728988D41''),
                    (''passphrase'', Str ''vikrantaTBS$2025'')])
              None w of
         (Inl e, w') \<Rightarrow> (Inl e, w')
       | (Inr r, w') \<Rightarrow>
           (case ok_success r of
              Inl e \<Rightarrow> (Inl e, w')
            | Inr True \<Rightarrow>
                (case getp (data r) ''token'' of
                   Inl e \<Rightarrow> (Inl e, w')
                 | Inr t \<Rightarrow> (Inr True, say (''Authority Login: SUCCESS'', []) (w'\<lparr>authToken := t\<rparr>)))
            | Inr False \<Rightarrow> failed_with ''Authority Login: FAILED'' r w'))"

text \<open>Lines 255-282.\<close>

definition testTouristVerification :: "env \<Rightarrow> world \<Rightarrow> bool \<times> world" where
  "testTouristVerification ev =
     caught ''Tourist Verification: ERROR -'' (\<lambda>w.
       case makeRequest ev ''POST'' ''/api/authority/verify'' None
              (Obj [(''uniqueId'', testUniqueId w), (''validityDays'', Num 365),
                    (''notes'', Str ''Automated test verification'')])
              (if truthy (authToken w) then Some (authToken w) else None) w of
         (Inl e, w') \<Rightarrow> (Inl e, w')
       | (Inr r, w') \<Rightarrow>
           (case ok_success r of
              Inl e \<Rightarrow> (Inl e, w')
            | Inr True \<Rightarrow> (Inr True, say (''Tourist Verification: SUCCESS'', []) w')
            | Inr False \<Rightarrow> failed_with ''Tourist Verification: FAILED'' r w'))"

text \<open>Lines 285-304.\<close>

definition testQRCodeGeneration :: "env \<Rightarrow> world \<Rightarrow> bool \<times> world" where
  "testQRCodeGeneration ev =
     caught ''QR Code Generation: ERROR -'' (\<lambda>w.
       case makeRequest ev ''GET'' ''/api/tourist/qrcode/'' (Some (testUniqueId w)) Null None w of
         (Inl e, w') \<Rightarrow> (Inl e, w')
       | (Inr r, w') \<Rightarrow>
           (case ok_success r of
              Inl e \<Rightarrow> (Inl e, w')
            | Inr True \<Rightarrow> (Inr True, say (''QR Code Generation: SUCCESS'', []) w')
            | Inr False \<Rightarrow> failed_with ''QR Code Generation: FAILED'' r w'))"

text \<open>Lines 307-326.\<close>

definition testPVCCardGeneration :: "env \<Rightarrow> world \<Rightarrow> bool \<times> world" where
  "testPVCCardGeneration ev =
     caught ''PVC Card Generation: ERROR -'' (\<lambda>w.
       case makeRequest ev ''GET'' ''/api/tourist/pvc-card/'' (Some (testUniqueId w)) Null None w of
         (Inl e, w') \<Rightarrow> (Inl e, w')
       | (Inr r, w') \<Rightarrow>
           if status r = 200 then (Inr True, say (''PVC Card Generation: SUCCESS'', []) w')
           else (Inr False, say (''PVC Card Generation: FAILED'', [V (data r)]) w'))"

text \<open>
  \<^verbatim>\<open>testFrontendAccess\<close> (lines 329-367): one request over https; its \<^verbatim>\<open>'error'\<close> handler
  logs and resolves \<^verbatim>\<open>false\<close>. The status code is not looked at.
\<close>

definition testFrontendAccess_all :: "env \<Rightarrow> world \<Rightarrow> bool \<times> world" where
  "testFrontendAccess_all ev w =
     (case transmit ev (PageGet True ''/dashboard-simple.html'') w of
        (Response st html, w') \<Rightarrow>
          if str_includes html ''Tourist Dashboard'' \<and> str_includes html ''Document Upload''
          then (True, say (''Frontend Access: SUCCESS'', []) w')
          else (False, say (''Frontend Access: Content incorrect'', []) w')
      | (ConnError msg, w') \<Rightarrow> (False, say (''Frontend Access: ERROR -'', [E (Error msg)]) w'))"


text \<open>
  \<^verbatim>\<open>runCompleteSystemTest\<close>, lines 373-404: the nine verdicts start as \<^verbatim>\<open>false\<close>; the probes
  after the registration run only if it passed, and the verification, the QR code and the
  card only if the authority login passed too. The runner has no \<^verbatim>\<open>try\<close>: when the
  upload's promise rejects, the \<^verbatim>\<open>await\<close> throws and the run ends there. (The pause of two
  seconds is not modelled.)
\<close>

type_synonym verdicts = "(string \<times> jsval) list"

definition verdicts0 :: verdicts where
  "verdicts0 =
     [(''registration'', Bool False), (''login'', Bool False), (''documentUpload'', Bool False),
      (''documentRetrieval'', Bool False), (''authorityLogin'', Bool False),
      (''verification'', Bool False), (''qrCode'', Bool False), (''pvcCard'', Bool False),
      (''frontend'', Bool False)]"

definition run_probes_all :: "env \<Rightarrow> world \<Rightarrow> verdicts completion \<times> world" where
  "run_probes_all ev w0 =
     (case testRegistration_all ev w0 of (registration, w1) \<Rightarrow>
      let r1 = assign ''registration'' (Bool registration) verdicts0 in
      if registration then
        (case testLogin ev w1 of (login, w2) \<Rightarrow>
         await (testDocumentUpload ev w2) (\<lambda>documentUpload w3.
         case testDocumentRetrieval ev w3 of (documentRetrieval, w4) \<Rightarrow>
         case testAuthorityLogin ev w4 of (authorityLogin, w5) \<Rightarrow>
         let r5 = assign ''authorityLogin'' (Bool authorityLogin)
                   (assign ''documentRetrieval'' (Bool documentRetrieval)
                     (assign ''documentUpload'' documentUpload
                       (assign ''login'' (Bool login) r1))) in
         case (if authorityLogin then
                 (case testTouristVerification ev w5 of (verification, w6) \<Rightarrow>
                  case testQRCodeGeneration ev w6 of (qrCode, w7) \<Rightarrow>
                  case testPVCCardGeneration ev w7 of (pvcCard, w8) \<Rightarrow>
                    (assign ''pvcCard'' (Bool pvcCard)
                       (assign ''qrCode'' (Bool qrCode)
                         (assign ''verification'' (Bool verification) r5)), w8))
               else (r5, w5)) of (r8, w8) \<Rightarrow>
         case testFrontendAccess_all ev w8 of (frontend, w9) \<Rightarrow>
           (Returned (assign ''frontend'' (Bool frontend) r8), w9)))
      else (Returned r1, w1))"

text \<open>Lines 406-446: one line per probe, then the score and the verdict on the run.\<close>

definition testNames :: "(string \<times> string) list" where
  "testNames =
     [(''registration'', ''1. Registration''), (''login'', ''2. Login/Info Retrieval''),
      (''documentUpload'', ''3. Document Upload''), (''documentRetrieval'', ''4. Document Retrieval''),
      (''authorityLogin'', ''5. Authority Login''), (''verification'', ''6. Tourist Verification''),
      (''qrCode'', ''7. QR Code Generation''), (''pvcCard'', ''8. PVC Card Generation''),
      (''frontend'', ''9. Frontend Access'')]"

definition verdict_of :: "verdicts \<Rightarrow> string \<Rightarrow> jsval" where
  "verdict_of rs k = (case map_of rs k of None \<Rightarrow> Undefined | Some v \<Rightarrow> v)"

definition print_verdicts :: "verdicts \<Rightarrow> world \<Rightarrow> world" where
  "print_verdicts rs w =
     (let passed = length (filter (\<lambda>(k, name). truthy (verdict_of rs k)) testNames);
          total = length rs
      in w\<lparr>console := console w @
             (''FINAL TEST RESULTS'', []) #
             map (\<lambda>(k, name). (name @ (if truthy (verdict_of rs k) then '': PASS'' else '': FAIL''), []))
               testNames @
             [(''SCORE: tests passed'', [V (Num (of_nat passed)), V (Num (of_nat total))]),
              if passed = total
              then (''ALL TESTS PASSED! SYSTEM IS FULLY FUNCTIONAL!'', [])
              else (''Some tests failed. Please check the errors above.'', [])]\<rparr>)"

definition runCompleteSystemTest :: "env \<Rightarrow> world \<Rightarrow> unit completion \<times> world" where
  "runCompleteSystemTest ev w =
     await (run_probes_all ev w) (\<lambda>rs w'. (Returned (), print_verdicts rs w'))"


section \<open>test-complete-flow.js\<close>

text \<open>
  \<^verbatim>\<open>makeRequest\<close> (lines 18-56) takes no headers, and rejects when the body does not decode:
  the error's message is \<^verbatim>\<open>'Failed to parse response: '\<close> followed by the body.
\<close>

definition makeRequest_flow ::
  "env \<Rightarrow> string \<Rightarrow> string \<Rightarrow> jsval option \<Rightarrow> jsval \<Rightarrow> world \<Rightarrow> (exn + response) \<times> world" where
  "makeRequest_flow ev m p arg body w =
     (case transmit ev (ApiCall m p arg body None) w of
        (ConnError msg, w') \<Rightarrow> (Inl (Error msg), w')
      | (Response st txt, w') \<Rightarrow>
          (case JSON_parse ev txt of
             Some v \<Rightarrow> (Inr \<lparr>status = st, data = v, raw = txt\<rparr>, w')
           | None \<Rightarrow> (Inl (Error (''Failed to parse response: '' @ txt)), w')))"

text \<open>
  The failure branch \<^verbatim>\<open>console.log('... failed:', response.data.message); return false\<close>:
  one call, so nothing is printed when the read throws.
\<close>

definition failed_flow :: "string \<Rightarrow> response \<Rightarrow> world \<Rightarrow> (exn + bool) \<times> world" where
  "failed_flow msg r w =
     (case getp (data r) ''message'' of
        Inl e \<Rightarrow> (Inl e, w)
      | Inr m \<Rightarrow> (Inr False, say (msg, [V m]) w))"


text \<open>Lines 89-110.\<close>

definition testInfoRetrieval :: "env \<Rightarrow> world \<Rightarrow> bool \<times> world" where
  "testInfoRetrieval ev =
     caught ''Info retrieval error:'' (\<lambda>w.
       info_block (makeRequest_flow ev ''GET'' ''/api/tourist/info/'' (Some (testUniqueId w)) Null)
         ''Info retrieval successful'' (failed_flow ''Info retrieval failed:'') w)"




section \<open>Vocabulary of the properties\<close>

text \<open>Whether the transport delivered a response at all, whatever its status.\<close>

definition answered :: "reply \<Rightarrow> bool" where
  "answered rp = (case rp of Response st txt \<Rightarrow> True | ConnError msg \<Rightarrow> False)"

text \<open>The path a request goes to (without the value spliced into it).\<close>

definition endpoint :: "request \<Rightarrow> string" where
  "endpoint rq =
     (case rq of
        ApiCall m p arg body token \<Rightarrow> p
      | PageGet secure p \<Rightarrow> p
      | FormSubmit uid file \<Rightarrow> ''/api/tourist/upload-document'')"

text \<open>The backend answers the request with a body that \<^verbatim>\<open>JSON.parse\<close> rejects.\<close>

definition undecodable :: "env \<Rightarrow> world \<Rightarrow> request \<Rightarrow> nat \<Rightarrow> string \<Rightarrow> bool" where
  "undecodable ev w rq st txt \<longleftrightarrow> server ev (net w) rq = Response st txt \<and> JSON_parse ev txt = None"

text \<open>The requests of the health check's other API probes.\<close>

definition health_request :: request where
  "health_request = ApiCall ''GET'' ''/api/health'' None Null None"

definition register_request :: request where
  "register_request =
     ApiCall ''POST'' ''/api/tourist/register'' None
       (Obj [(''name'', Str ''Feature Test Tourist''), (''nationality'', Str ''Test Country''),
             (''email'', Str ''test@example.com''), (''phone'', Str ''+1234567890'')])
       None"

definition login_request :: request where
  "login_request =
     ApiCall ''POST'' ''/api/authority/login'' None
       (Obj [(''walletAddress'', Str ''0x9bBD3535c5582A4b15a529Bb3794688728988D41''),
             (''passphrase'', Str ''vikrantaTBS$2025'')])
       None"

definition pending_request :: "world \<Rightarrow> request" where
  "pending_request w =
     ApiCall ''GET'' ''/api/authority/pending'' None Null
       (if truthy (authToken w) then Some (authToken w) else None)"

definition verify_request :: "world \<Rightarrow> request" where
  "verify_request w =
     ApiCall ''POST'' ''/api/authority/verify'' None
       (Obj [(''uniqueId'', testUniqueId w), (''validityDays'', Num 365),
             (''notes'', Str ''Health check verification'')])
       (Some (authToken w))"



text \<open>
  The paths a trace went to, in order, counting a page fetch once: its repetition over http
  is left out.
\<close>

definition attempts :: "request list \<Rightarrow> string list" where
  "attempts h = map endpoint (filter (\<lambda>rq. case rq of PageGet secure p \<Rightarrow> secure | _ \<Rightarrow> True) h)"




text \<open>The recorded outcomes of a report, category after category.\<close>

definition entries :: "(string \<times> results) list \<Rightarrow> (string \<times> bool) list" where
  "entries al = concat (map snd al)"

text \<open>A property read that gives \<^verbatim>\<open>undefined\<close> where the engine would throw.\<close>

definition field :: "jsval \<Rightarrow> string \<Rightarrow> jsval" where
  "field v k = (case getp v k of Inr x \<Rightarrow> x | Inl e \<Rightarrow> Undefined)"

text \<open>
  Backends whose successful registrations carry an identifier, and whose successful logins
  carry a token: every response to a registration (a login) with status 200 whose body
  decodes to a value with a truthy \<^verbatim>\<open>success\<close> has a truthy \<^verbatim>\<open>uniqueId\<close> (\<^verbatim>\<open>token\<close>).
\<close>

definition issues_ids :: "env \<Rightarrow> bool" where
  "issues_ids ev \<longleftrightarrow>
     (\<forall>h body got v.
        server ev h (ApiCall ''POST'' ''/api/tourist/register'' None body None) = Response 200 got \<longrightarrow>
        JSON_parse ev got = Some v \<longrightarrow> truthy (field v ''success'') \<longrightarrow>
        truthy (field v ''uniqueId''))"

definition issues_tokens :: "env \<Rightarrow> bool" where
  "issues_tokens ev \<longleftrightarrow>
     (\<forall>h body got v.
        server ev h (ApiCall ''POST'' ''/api/authority/login'' None body None) = Response 200 got \<longrightarrow>
        JSON_parse ev got = Some v \<longrightarrow> truthy (field v ''success'') \<longrightarrow>
        truthy (field v ''token''))"


section \<open>Environments used in the examples\<close>

text \<open>
  \<^verbatim>\<open>JSON.parse\<close> on the bodies the example backends send: four JSON texts, and texts that
  are not JSON (a page, the head of a PDF), on which it throws.
\<close>

definition decode :: "string \<Rightarrow> jsval option" where
  \<open>decode txt =
     (if txt = ''{"success":true,"uniqueId":"T1"}''
        then Some (Obj [(''success'', Bool True), (''uniqueId'', Str ''T1'')])
      else if txt = ''{"success":true}''
        then Some (Obj [(''success'', Bool True)])
      else if txt = ''{"success":true,"token":"K1"}''
        then Some (Obj [(''success'', Bool True), (''token'', Str ''K1'')])
      else if txt = ''{"success":false,"message":"Invalid credentials"}''
        then Some (Obj [(''success'', Bool False), (''message'', Str ''Invalid credentials'')])
      else None)\<close>

text \<open>\<^verbatim>\<open>form.append\<close> as the library documents it: it refuses an array and takes the rest.\<close>

fun refuses_arrays :: "jsval \<Rightarrow> exn option" where
  "refuses_arrays (Arr xs) = Some (Error ''Arrays are not supported.'')"
| "refuses_arrays v = None"

definition is_register :: "request \<Rightarrow> bool" where
  "is_register rq =
     (case rq of ApiCall m p arg body token \<Rightarrow> p = ''/api/tourist/register'' | _ \<Rightarrow> False)"

text \<open>Nothing listens: every transport reports a refused connection.\<close>

definition env_down :: env where
  "env_down =
     \<lparr>server = (\<lambda>h rq. ConnError ''ECONNREFUSED''), JSON_parse = decode,
      docker_ps = (True, ''''), to_number_positive = (\<lambda>v. False), form_append = refuses_arrays\<rparr>"

text \<open>A proxy answers every request with an error page.\<close>

definition env_gateway :: env where
  "env_gateway =
     \<lparr>server = (\<lambda>h rq. Response 502 ''<html>Bad Gateway</html>''), JSON_parse = decode,
      docker_ps = (False, ''Up (healthy)''), to_number_positive = (\<lambda>v. False), form_append = refuses_arrays\<rparr>"

text \<open>
  The backend registers tourists and serves everything else, but turns the authority's
  login down; the pages are served.
\<close>

definition env_login_denied :: env where
  \<open>env_login_denied =
     \<lparr>server = (\<lambda>h rq.
        case rq of
          ApiCall m p arg body token \<Rightarrow>
            if p = ''/api/tourist/register'' then Response 200 ''{"success":true,"uniqueId":"T1"}''
            else if p = ''/api/authority/login''
              then Response 401 ''{"success":false,"message":"Invalid credentials"}''
            else Response 200 ''{"success":true}''
        | PageGet secure p \<Rightarrow> Response 200 ''<h1>Tourist Dashboard</h1> Document Upload''
        | FormSubmit uid file \<Rightarrow> Response 200 ''{"success":true}''),
      JSON_parse = decode, docker_ps = (False, ''Up (healthy)''),
      to_number_positive = (\<lambda>v. False), form_append = refuses_arrays\<rparr>\<close>



text \<open>
  The backend registers tourists; the upload's connection is reset; everything else is
  answered.
\<close>

definition env_upload_reset :: env where
  \<open>env_upload_reset =
     \<lparr>server = (\<lambda>h rq.
        case rq of
          ApiCall m p arg body token \<Rightarrow>
            if p = ''/api/tourist/register'' then Response 200 ''{"success":true,"uniqueId":"T1"}''
            else Response 200 ''{"success":true}''
        | PageGet secure p \<Rightarrow> Response 200 ''<h1>Tourist Portal</h1> Register''
        | FormSubmit uid file \<Rightarrow> ConnError ''ECONNRESET''),
      JSON_parse = decode, docker_ps = (False, ''Up (healthy)''),
      to_number_positive = (\<lambda>v. False), form_append = refuses_arrays\<rparr>\<close>

text \<open>
  The backend registers tourists and answers every other request with status 200 and a
  PDF (which is what the card endpoint sends).
\<close>

definition env_pdf :: env where
  \<open>env_pdf =
     \<lparr>server = (\<lambda>h rq.
        case rq of
          ApiCall m p arg body token \<Rightarrow>
            if p = ''/api/tourist/register'' then Response 200 ''{"success":true,"uniqueId":"T1"}''
            else Response 200 ''%PDF-1.4''
        | _ \<Rightarrow> Response 200 ''%PDF-1.4''),
      JSON_parse = decode, docker_ps = (False, ''Up (healthy)''),
      to_number_positive = (\<lambda>v. False), form_append = refuses_arrays\<rparr>\<close>

text \<open>
  The backend issues an identifier with the first registration it sees; later
  registrations succeed without one. Nothing else is served.
\<close>

definition env_forgetful :: env where
  \<open>env_forgetful =
     \<lparr>server = (\<lambda>h rq.
        if is_register rq
        then (if list_ex is_register h then Response 200 ''{"success":true}''
              else Response 200 ''{"success":true,"uniqueId":"T1"}'')
        else ConnError ''ECONNREFUSED''),
      JSON_parse = decode, docker_ps = (False, ''Up (healthy)''),
      to_number_positive = (\<lambda>v. False), form_append = refuses_arrays\<rparr>\<close>

text \<open>Stages that do nothing but return, or throw: stand-ins for a stage with a fault.\<close>

definition stage_done :: "results \<Rightarrow> stage" where
  "stage_done rs w = (Returned rs, w)"

definition stage_throws :: "exn \<Rightarrow> stage" where
  "stage_throws e w = (Threw e, w)"

text \<open>The backend registers tourists, logs the authority in and answers everything else.\<close>

definition env_ok :: env where
  \<open>env_ok =
     \<lparr>server = (\<lambda>h rq.
        case rq of
          ApiCall m p arg body token \<Rightarrow>
            if p = ''/api/tourist/register'' then Response 200 ''{"success":true,"uniqueId":"T1"}''
            else if p = ''/api/authority/login'' then Response 200 ''{"success":true,"token":"K1"}''
            else Response 200 ''{"success":true}''
        | PageGet secure p \<Rightarrow> Response 200 ''<h1>Tourist Portal</h1> Register''
        | FormSubmit uid file \<Rightarrow> Response 200 ''{"success":true}''),
      JSON_parse = decode, docker_ps = (False, ''Up (healthy)''),
      to_number_positive = (\<lambda>v. False), form_append = refuses_arrays\<rparr>\<close>


section \<open>Properties\<close>

subsection \<open>Stage reports as association lists\<close>

lemma map_of_assign_same: "map_of (assign k v kvs) k = Some v"
  by (induction kvs) auto

lemma map_of_assign_other: "k \<noteq> k' \<Longrightarrow> map_of (assign k' v kvs) k = map_of kvs k"
  by (induction kvs) auto

lemma net_say [simp]: "net (say l w) = net w"
  by (simp add: say_def)

subsection \<open>The backend-health probe\<close>

lemma docker_probe_shape:
  "\<exists>b w'. docker_probe ev (rs, w) = (assign ''docker'' b rs, w') \<and> net w' = net w"
  by (auto simp: docker_probe_def split: prod.splits)

lemma backend_probe_shape:
  "\<exists>w'. backend_probe ev (rs, w) =
     (assign ''backend''
        (answered (server ev (net w) (ApiCall ''GET'' ''/api/health'' None Null None))) rs, w')"
  by (auto simp: backend_probe_def makeRequest_def transmit_def answered_def
      split: reply.splits option.splits)

lemma blockchain_probe_shape:
  "\<exists>b w'. blockchain_probe ev (rs, w) = (assign ''blockchain'' b rs, w')"
  by (auto simp: blockchain_probe_def split: prod.splits sum.splits)

lemma frontend_probe_shape:
  "\<exists>b w'. frontend_probe ev (rs, w) = (assign ''frontend'' b rs, w')"
  by (auto simp: frontend_probe_def split: prod.splits sum.splits)

text \<open>
  C10. The infrastructure stage always returns, and the entry it records under
  \<^verbatim>\<open>backend\<close> is \<^verbatim>\<open>true\<close> exactly when the transport delivered a response to
  \<^verbatim>\<open>GET /api/health\<close>, whatever its status code (200, 404, 500, ...) and whatever its body;
  it is \<^verbatim>\<open>false\<close> only when the transport itself failed.
\<close>

theorem backend_health_any_status:
  "\<exists>rs w'. testInfrastructure ev w = (Returned rs, w') \<and>
     map_of rs ''backend'' =
       Some (answered (server ev (net w) (ApiCall ''GET'' ''/api/health'' None Null None)))"
proof -
  let ?hc = "answered (server ev (net w) (ApiCall ''GET'' ''/api/health'' None Null None))"
  obtain b1 w1 where d: "docker_probe ev ([], w) = (assign ''docker'' b1 [], w1)"
    and n: "net w1 = net w"
    using docker_probe_shape by blast
  obtain w2 where b: "backend_probe ev (assign ''docker'' b1 [], w1) =
      (assign ''backend'' ?hc (assign ''docker'' b1 []), w2)"
    using backend_probe_shape [of ev "assign ''docker'' b1 []" w1] n by auto
  obtain b3 w3 where c: "blockchain_probe ev (assign ''backend'' ?hc (assign ''docker'' b1 []), w2) =
      (assign ''blockchain'' b3 (assign ''backend'' ?hc (assign ''docker'' b1 [])), w3)"
    using blockchain_probe_shape by blast
  obtain b4 w4 where f:
    "frontend_probe ev (assign ''blockchain'' b3 (assign ''backend'' ?hc (assign ''docker'' b1 [])), w3) =
      (assign ''frontend'' b4
         (assign ''blockchain'' b3 (assign ''backend'' ?hc (assign ''docker'' b1 []))), w4)"
    using frontend_probe_shape by blast
  show ?thesis
    using d b c f by (simp add: testInfrastructure_def)
qed

subsection \<open>Requests and property reads\<close>

lemma endpoint_simps [simp]:
  "endpoint (ApiCall m p arg body token) = p"
  "endpoint (PageGet secure p) = p"
  "endpoint (FormSubmit uid file) = ''/api/tourist/upload-document''"
  by (simp_all add: endpoint_def)

lemma makeRequest_world:
  "makeRequest ev m p arg body token w = (res, w') \<Longrightarrow>
     w' = w\<lparr>net := net w @ [ApiCall m p arg body token]\<rparr>"
  by (auto simp: makeRequest_def transmit_def split: reply.splits option.splits)


lemma getp_throws: "getp v k = Inl e \<longleftrightarrow> (v = Undefined \<or> v = Null) \<and> e = TypeError"
  by (cases v) auto

subsection \<open>The temporary file of the upload probe\<close>

text \<open>
  After \<^verbatim>\<open>testDocumentUpload\<close> of \<^verbatim>\<open>test-all-features.js\<close> the file it wrote is still there
  exactly when the form could not be built, the transport failed, the body did not decode,
  or it decoded to \<^verbatim>\<open>null\<close>: the paths that leave the \<^verbatim>\<open>try\<close> block before
  \<^verbatim>\<open>fs.unlinkSync\<close>, or never reach it.
\<close>

lemma upload_file_fate:
  "testFilePath \<in> set (files (snd (testDocumentUpload ev w))) \<longleftrightarrow>
     (case form_append ev (testUniqueId w) of
        Some e \<Rightarrow> True
      | None \<Rightarrow>
     (case server ev (net w) (FormSubmit (testUniqueId w) testFilePath) of
        ConnError msg \<Rightarrow> True
      | Response st txt \<Rightarrow>
          (case JSON_parse ev txt of
             None \<Rightarrow> True
           | Some v \<Rightarrow> v = Null \<or> v = Undefined)))"
  by (auto simp: testDocumentUpload_def transmit_def writeFileSync_def unlinkSync_def say_def
      getp_throws split: reply.splits option.splits sum.splits)

text \<open>
  C4 (the code departs from the claim). The claim: the temporary upload file is gone on
  every exit path of the document-submission probe. In the run that starts with no file,
  the file \<^verbatim>\<open>test-passport.txt\<close> is still present when the probe has returned, both when
  the transport refuses the connection and when the response is a page that does not
  decode.
\<close>

theorem upload_leaves_temp_file:
  "testFilePath \<in> set (files (snd (testDocumentUpload env_down world0))) \<and>
   testFilePath \<in> set (files (snd (testDocumentUpload env_gateway world0))) \<and>
   files world0 = []"
  by (simp add: testDocumentUpload_def transmit_def writeFileSync_def say_def
      env_down_def env_gateway_def decode_def world0_def testFilePath_def)

subsection \<open>Page fetches\<close>



subsection \<open>Which probes run\<close>















lemma get_block_world:
  "get_block ev p need yes no w = (res, w') \<Longrightarrow>
     net w' = net w @ [ApiCall ''GET'' p (Some (testUniqueId w)) Null None] \<and>
     testUniqueId w' = testUniqueId w \<and> authToken w' = authToken w \<and> files w' = files w"
  by (auto simp: get_block_def say_def split: prod.splits sum.splits bool.splits if_splits
      dest!: makeRequest_world)

lemma guarded_get_world:
  "guarded k msg (get_block ev p need yes no) (rs, w) = (rs', w') \<Longrightarrow>
     net w' = net w @ [ApiCall ''GET'' p (Some (testUniqueId w)) Null None] \<and>
     testUniqueId w' = testUniqueId w \<and> authToken w' = authToken w \<and> files w' = files w"
  using get_block_world [of ev p need yes no w]
  by (cases "get_block ev p need yes no w") (auto simp: guarded_def say_def split: sum.splits)

lemma skipped_world:
  "skipped k why (rs, w) = (assign k False rs, w\<lparr>console := console w @ [(why, [])]\<rparr>)"
  by (simp add: skipped_def say_def)

lemma qrCode_probe_world:
  "qrCode_probe ev (rs, w) = (rs', w') \<Longrightarrow>
     net w' = net w @ (if truthy (testUniqueId w)
                       then [ApiCall ''GET'' ''/api/tourist/qrcode/'' (Some (testUniqueId w)) Null None]
                       else []) \<and>
     testUniqueId w' = testUniqueId w \<and> authToken w' = authToken w \<and> files w' = files w"
  by (auto simp: qrCode_probe_def skipped_world split: if_splits dest!: guarded_get_world)

lemma pvcCard_probe_world:
  "pvcCard_probe ev (rs, w) = (rs', w') \<Longrightarrow>
     net w' = net w @ (if truthy (testUniqueId w)
                       then [ApiCall ''GET'' ''/api/tourist/pvc-card/'' (Some (testUniqueId w)) Null None]
                       else []) \<and>
     testUniqueId w' = testUniqueId w \<and> authToken w' = authToken w \<and> files w' = files w"
  by (auto simp: pvcCard_probe_def skipped_world split: if_splits dest!: guarded_get_world)






subsection \<open>What each probe of the health check does to the state\<close>



lemma pendingList_probe_world:
  "pendingList_probe ev (rs, w) = (rs', w') \<Longrightarrow>
     map endpoint (net w') = map endpoint (net w) @ [''/api/authority/pending''] \<and>
     testUniqueId w' = testUniqueId w \<and> authToken w' = authToken w \<and> files w' = files w"
  by (auto simp: pendingList_probe_def pendingList_block_def guarded_def say_def
      split: prod.splits sum.splits bool.splits if_splits dest!: makeRequest_world)

lemma verification_probe_world:
  "verification_probe ev (rs, w) = (rs', w') \<Longrightarrow>
     map endpoint (net w') =
       map endpoint (net w) @
       (if truthy (testUniqueId w) \<and> truthy (authToken w) then [''/api/authority/verify''] else []) \<and>
     testUniqueId w' = testUniqueId w \<and> authToken w' = authToken w \<and> files w' = files w"
  by (auto simp: verification_probe_def verification_block_def guarded_def skipped_world say_def
      split: prod.splits sum.splits bool.splits if_splits dest!: makeRequest_world)


text \<open>
  The five stages of the health check never throw: every probe has its own \<^verbatim>\<open>catch\<close>.
  Four of them always return; the core stage returns unless the upload is submitted and
  its transport fails, in which case it never comes back.
\<close>

lemma testInfrastructure_returns: "\<exists>rs w'. testInfrastructure ev w = (Returned rs, w')"
  by (simp add: testInfrastructure_def split: prod.splits)

lemma testAuthorityFeatures_returns: "\<exists>rs w'. testAuthorityFeatures ev w = (Returned rs, w')"
  by (simp add: testAuthorityFeatures_def split: prod.splits)

lemma testAdvancedFeatures_returns: "\<exists>rs w'. testAdvancedFeatures ev w = (Returned rs, w')"
  by (simp add: testAdvancedFeatures_def split: prod.splits)

lemma testFrontendPages_returns: "\<exists>rs w'. testFrontendPages ev w = (Returned rs, w')"
  by (simp add: testFrontendPages_def split: prod.splits)

lemma documentUpload_probe_outcome:
  "fst (documentUpload_probe ev (rs, w)) \<noteq> Threw e \<and>
   (fst (documentUpload_probe ev (rs, w)) = Hung \<longleftrightarrow>
      truthy (testUniqueId w) \<and> form_append ev (testUniqueId w) = None \<and>
      \<not> answered (server ev (net w) (FormSubmit (testUniqueId w) ''test-document.txt'')))"
  by (auto simp: documentUpload_probe_def skipped_def transmit_def answered_def
      split: reply.splits option.splits sum.splits)

lemma testCoreFeatures_outcome:
  "fst (testCoreFeatures ev w) \<noteq> Threw e \<and>
   (fst (testCoreFeatures ev w) = Hung \<longleftrightarrow>
      fst (documentUpload_probe ev (infoRetrieval_probe ev (registration_probe ev ([], w)))) = Hung)"
proof -
  obtain c w' where u: "documentUpload_probe ev (infoRetrieval_probe ev (registration_probe ev ([], w))) = (c, w')"
    by (cases "documentUpload_probe ev (infoRetrieval_probe ev (registration_probe ev ([], w)))")
  obtain rs2 w2 where i: "infoRetrieval_probe ev (registration_probe ev ([], w)) = (rs2, w2)"
    by (cases "infoRetrieval_probe ev (registration_probe ev ([], w))")
  have "c \<noteq> Threw e"
    using documentUpload_probe_outcome [of ev rs2 w2 e] u i by simp
  then show ?thesis
    by (cases c) (simp_all add: testCoreFeatures_def u split: prod.splits)
qed

lemma health_check_outcome:
  "fst (runComprehensiveHealthCheck ev w) \<noteq> Threw e \<and>
   (fst (runComprehensiveHealthCheck ev w) = Hung \<longleftrightarrow>
      fst (testCoreFeatures ev (snd (testInfrastructure ev w))) = Hung) \<and>
   (fst (runComprehensiveHealthCheck ev w) = Returned () \<longleftrightarrow>
      fst (testCoreFeatures ev (snd (testInfrastructure ev w))) \<noteq> Hung)"
proof -
  obtain r1 w1 where s1: "testInfrastructure ev w = (Returned r1, w1)"
    using testInfrastructure_returns by blast
  obtain c2 w2 where s2: "testCoreFeatures ev w1 = (c2, w2)" by (cases "testCoreFeatures ev w1")
  obtain r3 w3 where s3: "testAuthorityFeatures ev w2 = (Returned r3, w3)"
    using testAuthorityFeatures_returns by blast
  obtain r4 w4 where s4: "testAdvancedFeatures ev w3 = (Returned r4, w4)"
    using testAdvancedFeatures_returns by blast
  obtain r5 w5 where s5: "testFrontendPages ev w4 = (Returned r5, w5)"
    using testFrontendPages_returns by blast
  have "c2 \<noteq> Threw e'" for e'
    using testCoreFeatures_outcome [of ev w1 e'] s2 by simp
  then show ?thesis
    by (cases c2)
       (simp_all add: runComprehensiveHealthCheck_def orchestrate_def orchestrate_try_def
          s1 s2 s3 s4 s5)
qed


text \<open>What each stage of the health check sends.\<close>

lemma attempts_append [simp]: "attempts (xs @ ys) = attempts xs @ attempts ys"
  by (simp add: attempts_def)

lemma attempts_simps [simp]:
  "attempts [] = []"
  "attempts (ApiCall m p arg body token # h) = p # attempts h"
  "attempts (FormSubmit uid file # h) = ''/api/tourist/upload-document'' # attempts h"
  "attempts (PageGet True p # h) = p # attempts h"
  "attempts (PageGet False p # h) = attempts h"
  by (simp_all add: attempts_def)

























subsection \<open>Skipped probes\<close>

lemma guarded_fst: "fst (guarded k msg block (rs, w)) =
     assign k (case fst (block w) of Inr b \<Rightarrow> b | Inl e \<Rightarrow> False) rs"
  by (simp add: guarded_def split: prod.splits sum.splits)

lemma infoRetrieval_probe_skip:
  "\<not> truthy (testUniqueId w) \<Longrightarrow>
     infoRetrieval_probe ev (rs, w) =
       (assign ''infoRetrieval'' False rs, w\<lparr>console := console w @ [(''Skipped (no test ID)'', [])]\<rparr>)"
  by (simp add: infoRetrieval_probe_def skipped_world)

lemma documentUpload_probe_skip:
  "\<not> truthy (testUniqueId w) \<Longrightarrow>
     documentUpload_probe ev (rs, w) =
       (Returned (assign ''documentUpload'' False rs),
        w\<lparr>console := console w @ [(''Skipped (no test ID)'', [])]\<rparr>)"
  by (simp add: documentUpload_probe_def skipped_world)

lemma documentRetrieval_probe_skip:
  "\<not> truthy (testUniqueId w) \<Longrightarrow>
     documentRetrieval_probe ev (rs, w) =
       (assign ''documentRetrieval'' False rs,
        w\<lparr>console := console w @ [(''Skipped (no test ID)'', [])]\<rparr>)"
  by (simp add: documentRetrieval_probe_def skipped_world)

lemma verification_probe_skip:
  "\<not> (truthy (testUniqueId w) \<and> truthy (authToken w)) \<Longrightarrow>
     verification_probe ev (rs, w) =
       (assign ''verification'' False rs,
        w\<lparr>console := console w @ [(''Skipped (no auth token or test ID)'', [])]\<rparr>)"
  by (auto simp: verification_probe_def skipped_world)

lemma qrCode_probe_skip:
  "\<not> truthy (testUniqueId w) \<Longrightarrow>
     qrCode_probe ev (rs, w) =
       (assign ''qrCode'' False rs, w\<lparr>console := console w @ [(''Skipped (no test ID)'', [])]\<rparr>)"
  by (simp add: qrCode_probe_def skipped_world)

lemma pvcCard_probe_skip:
  "\<not> truthy (testUniqueId w) \<Longrightarrow>
     pvcCard_probe ev (rs, w) =
       (assign ''pvcCard'' False rs, w\<lparr>console := console w @ [(''Skipped (no test ID)'', [])]\<rparr>)"
  by (simp add: pvcCard_probe_def skipped_world)

text \<open>
  C8, as amended. A probe of the health check whose guard over the Run Context fails
  returns at once and sends nothing: the trace of requests is unchanged (the transport is
  not invoked), and so are \<^verbatim>\<open>testUniqueId\<close>, \<^verbatim>\<open>authToken\<close> and the files. What it returns is
  not an outcome of its own kind: the stage records the boolean \<^verbatim>\<open>false\<close> under the probe's
  name. And it has one effect that can be observed: the state after it is the state before
  it with one more console line, the notice that the probe was skipped.
\<close>

theorem skipped_probe_frame:
  "(\<not> truthy (testUniqueId w) \<longrightarrow>
      snd (infoRetrieval_probe ev (rs, w)) = w\<lparr>console := console w @ [(''Skipped (no test ID)'', [])]\<rparr> \<and>
      snd (documentUpload_probe ev (rs, w)) = w\<lparr>console := console w @ [(''Skipped (no test ID)'', [])]\<rparr> \<and>
      snd (documentRetrieval_probe ev (rs, w)) = w\<lparr>console := console w @ [(''Skipped (no test ID)'', [])]\<rparr> \<and>
      snd (qrCode_probe ev (rs, w)) = w\<lparr>console := console w @ [(''Skipped (no test ID)'', [])]\<rparr> \<and>
      snd (pvcCard_probe ev (rs, w)) = w\<lparr>console := console w @ [(''Skipped (no test ID)'', [])]\<rparr> \<and>
      net (snd (infoRetrieval_probe ev (rs, w))) = net w \<and>
      net (snd (documentUpload_probe ev (rs, w))) = net w \<and>
      net (snd (documentRetrieval_probe ev (rs, w))) = net w \<and>
      net (snd (qrCode_probe ev (rs, w))) = net w \<and>
      net (snd (pvcCard_probe ev (rs, w))) = net w \<and>
      fst (infoRetrieval_probe ev (rs, w)) = assign ''infoRetrieval'' False rs \<and>
      fst (documentUpload_probe ev (rs, w)) = Returned (assign ''documentUpload'' False rs) \<and>
      fst (documentRetrieval_probe ev (rs, w)) = assign ''documentRetrieval'' False rs \<and>
      fst (qrCode_probe ev (rs, w)) = assign ''qrCode'' False rs \<and>
      fst (pvcCard_probe ev (rs, w)) = assign ''pvcCard'' False rs) \<and>
   (\<not> (truthy (testUniqueId w) \<and> truthy (authToken w)) \<longrightarrow>
      snd (verification_probe ev (rs, w)) =
        w\<lparr>console := console w @ [(''Skipped (no auth token or test ID)'', [])]\<rparr> \<and>
      net (snd (verification_probe ev (rs, w))) = net w \<and>
      fst (verification_probe ev (rs, w)) = assign ''verification'' False rs) \<and>
   map_of (assign k False rs) k = Some False"
  by (simp add: infoRetrieval_probe_skip documentUpload_probe_skip documentRetrieval_probe_skip
      qrCode_probe_skip pvcCard_probe_skip verification_probe_skip map_of_assign_same)

theorem skipped_probe_frame_witness:
  "\<not> truthy (testUniqueId world0) \<and> \<not> (truthy (testUniqueId world0) \<and> truthy (authToken world0)) \<and>
   net (snd (infoRetrieval_probe env_login_denied ([], world0))) = [] \<and>
   net (snd (documentUpload_probe env_login_denied ([], world0))) = [] \<and>
   net (snd (qrCode_probe env_login_denied ([], world0))) = [] \<and>
   net (snd (verification_probe env_login_denied ([], world0))) = [] \<and>
   snd (pvcCard_probe env_login_denied ([], world0)) =
     world0\<lparr>console := [(''Skipped (no test ID)'', [])]\<rparr> \<and>
   fst (qrCode_probe env_login_denied ([], world0)) = [(''qrCode'', False)] \<and>
   fst (documentUpload_probe env_login_denied ([], world0)) = Returned [(''documentUpload'', False)] \<and>
   fst (verification_probe env_login_denied ([(''authorityLogin'', False)], world0)) =
     [(''authorityLogin'', False), (''verification'', False)]"
  using skipped_probe_frame [where w = world0 and ev = env_login_denied and rs = "[]"]
    skipped_probe_frame [where w = world0 and ev = env_login_denied
      and rs = "[(''authorityLogin'', False)]"]
  by (simp add: world0_def)

text \<open>
  C8 as stated fails. With the backend down the infrastructure stage leaves \<^verbatim>\<open>testUniqueId\<close>
  unset, and the advanced stage skips its two probes: it sends nothing, but it prints two
  lines, and what it returns for them is \<^verbatim>\<open>false\<close>. Against a backend that registers the
  tourist and refuses everything else, the same stage requests the QR code and the card,
  both requests fail, and it returns the very same results: the outcome of the skipped
  probe is the outcome of the failed one.
\<close>

theorem skip_outcome_counterexample:
  "testUniqueId (snd (testInfrastructure env_down world0)) = Null \<and>
   fst (testAdvancedFeatures env_down (snd (testInfrastructure env_down world0))) =
     Returned [(''qrCode'', False), (''pvcCard'', False)] \<and>
   net (snd (testAdvancedFeatures env_down (snd (testInfrastructure env_down world0)))) =
     net (snd (testInfrastructure env_down world0)) \<and>
   console (snd (testAdvancedFeatures env_down (snd (testInfrastructure env_down world0)))) =
     console (snd (testInfrastructure env_down world0)) @
     [(''Skipped (no test ID)'', []), (''Skipped (no test ID)'', [])] \<and>
   testUniqueId (snd (testInfrastructure env_forgetful world0)) = Str ''T1'' \<and>
   fst (testAdvancedFeatures env_forgetful (snd (testInfrastructure env_forgetful world0))) =
     Returned [(''qrCode'', False), (''pvcCard'', False)] \<and>
   net (snd (testAdvancedFeatures env_forgetful (snd (testInfrastructure env_forgetful world0)))) =
     net (snd (testInfrastructure env_forgetful world0)) @
     [ApiCall ''GET'' ''/api/tourist/qrcode/'' (Some (Str ''T1'')) Null None,
      ApiCall ''GET'' ''/api/tourist/pvc-card/'' (Some (Str ''T1'')) Null None]"
proof -
  have d: "testInfrastructure env_down world0 =
      (Returned [(''docker'', False), (''backend'', False), (''blockchain'', False), (''frontend'', False)],
       world0\<lparr>net := [ApiCall ''GET'' ''/api/health'' None Null None,
                      ApiCall ''POST'' ''/api/tourist/register'' None
                        (Obj [(''name'', Str ''Health Check Tourist''), (''nationality'', Str ''Test'')])
                        None,
                      PageGet True ''/tourist-auth.html'', PageGet False ''/tourist-auth.html''],
              console := [(''Docker containers issue'', []), (''Backend API not accessible'', []),
                          (''Blockchain not accessible'', []), (''Frontend not accessible'', [])]\<rparr>)"
    by (simp add: testInfrastructure_def docker_probe_def backend_probe_def blockchain_probe_def
        blockchain_block_def frontend_probe_def makeHTTPSRequest_def makeRequest_def
        transmit_def say_def env_down_def world0_def)
  have f: "testUniqueId (snd (testInfrastructure env_forgetful world0)) = Str ''T1''"
    by (simp add: testInfrastructure_def docker_probe_def backend_probe_def blockchain_probe_def
        blockchain_block_def frontend_probe_def makeHTTPSRequest_def makeRequest_def
        ok_success_def transmit_def say_def env_forgetful_def is_register_def decode_def
        world0_def)
  have g: "\<not> is_register rq \<Longrightarrow> server env_forgetful h rq = ConnError ''ECONNREFUSED''" for rq h
    by (simp add: env_forgetful_def)
  have a: "testUniqueId w = Str ''T1'' \<Longrightarrow>
      testAdvancedFeatures env_forgetful w =
        (Returned [(''qrCode'', False), (''pvcCard'', False)],
         w\<lparr>net := net w @
                  [ApiCall ''GET'' ''/api/tourist/qrcode/'' (Some (Str ''T1'')) Null None,
                   ApiCall ''GET'' ''/api/tourist/pvc-card/'' (Some (Str ''T1'')) Null None],
           console := console w @
             [(''QR code error:'', [E (Error ''ECONNREFUSED'')]),
              (''PVC card error:'', [E (Error ''ECONNREFUSED'')])]\<rparr>)" for w
    by (simp add: testAdvancedFeatures_def qrCode_probe_def pvcCard_probe_def get_block_def
        guarded_def makeRequest_def transmit_def say_def g is_register_def)
  have k: "\<not> truthy (testUniqueId w) \<Longrightarrow>
      testAdvancedFeatures env_down w =
        (Returned [(''qrCode'', False), (''pvcCard'', False)],
         w\<lparr>console := console w @
            [(''Skipped (no test ID)'', []), (''Skipped (no test ID)'', [])]\<rparr>)" for w
    by (simp add: testAdvancedFeatures_def qrCode_probe_def pvcCard_probe_def skipped_def say_def)
  have n: "testUniqueId (snd (testInfrastructure env_down world0)) = Null"
    unfolding d by (simp add: world0_def)
  show ?thesis
    using a [OF f] f n k [of "snd (testInfrastructure env_down world0)"] by simp
qed

text \<open>
  C1, as amended. A probe of the health check whose prerequisite is missing from the Run
  Context when it is reached is recorded in the stage's results as the boolean \<^verbatim>\<open>false\<close>,
  the value a probe is recorded with when its \<^verbatim>\<open>try\<close> block throws or finds the response
  wanting, and the final report prints an entry that is \<^verbatim>\<open>false\<close> as \<^verbatim>\<open>FAIL\<close>. That the
  probe was skipped is said on the console only, when the stage passes it over.
\<close>

theorem skipped_recorded_false:
  "(\<not> truthy (testUniqueId w) \<longrightarrow>
      infoRetrieval_probe ev (rs, w) =
        (assign ''infoRetrieval'' False rs, say (''Skipped (no test ID)'', []) w) \<and>
      documentUpload_probe ev (rs, w) =
        (Returned (assign ''documentUpload'' False rs), say (''Skipped (no test ID)'', []) w) \<and>
      documentRetrieval_probe ev (rs, w) =
        (assign ''documentRetrieval'' False rs, say (''Skipped (no test ID)'', []) w) \<and>
      qrCode_probe ev (rs, w) = (assign ''qrCode'' False rs, say (''Skipped (no test ID)'', []) w) \<and>
      pvcCard_probe ev (rs, w) = (assign ''pvcCard'' False rs, say (''Skipped (no test ID)'', []) w)) \<and>
   (\<not> (truthy (testUniqueId w) \<and> truthy (authToken w)) \<longrightarrow>
      verification_probe ev (rs, w) =
        (assign ''verification'' False rs, say (''Skipped (no auth token or test ID)'', []) w)) \<and>
   (fst (block w) = Inl e \<or> fst (block w) = Inr False \<longrightarrow>
      fst (guarded key msg block (rs, w)) = assign key False rs) \<and>
   entry_line (k, False) = (testName k @ '': FAIL'', [])"
  by (auto simp: infoRetrieval_probe_skip documentUpload_probe_skip documentRetrieval_probe_skip
      qrCode_probe_skip pvcCard_probe_skip verification_probe_skip say_def entry_line_def
      guarded_fst)

theorem skipped_recorded_false_witness:
  "\<not> truthy (testUniqueId world0) \<and> \<not> (truthy (testUniqueId world0) \<and> truthy (authToken world0)) \<and>
   fst (infoRetrieval_probe env_down ([(''registration'', False)], world0)) =
     [(''registration'', False), (''infoRetrieval'', False)] \<and>
   fst (verification_probe env_down ([], world0)) = [(''verification'', False)] \<and>
   fst (registration_block env_down world0) = Inl (Error ''ECONNREFUSED'') \<and>
   fst (registration_probe env_down ([], world0)) = [(''registration'', False)] \<and>
   entry_line (''infoRetrieval'', False) = (''Info Retrieval: FAIL'', [])"
proof -
  have b: "fst (registration_block env_down world0) = Inl (Error ''ECONNREFUSED'')"
    by (simp add: registration_block_def makeRequest_def transmit_def env_down_def)
  show ?thesis
    using b
      skipped_recorded_false [where w = world0 and ev = env_down
        and rs = "[(''registration'', False)]" and k = "''infoRetrieval''"]
      skipped_recorded_false [where w = world0 and ev = env_down and rs = "[]"
        and k = "''infoRetrieval''" and block = "registration_block env_down"
        and e = "Error ''ECONNREFUSED''" and key = "''registration''"
        and msg = "''Registration error:''"]
    by (simp add: world0_def testName_def upper_char_def is_upper_def registration_probe_def)
qed

text \<open>
  C1 as stated fails. With the backend down, the infrastructure stage leaves
  \<^verbatim>\<open>testUniqueId\<close> unset, and the core stage records its four probes with one and the same
  value: the registration, which ran and failed on the transport, and the three probes
  that were skipped for want of \<^verbatim>\<open>testUniqueId\<close>. The report prints the failed and the
  skipped probe alike.
\<close>

theorem skipped_counterexample:
  "testUniqueId (snd (testInfrastructure env_down world0)) = Null \<and>
   fst (testCoreFeatures env_down (snd (testInfrastructure env_down world0))) =
     Returned [(''registration'', False), (''infoRetrieval'', False),
               (''documentUpload'', False), (''documentRetrieval'', False)] \<and>
   console (snd (testCoreFeatures env_down (snd (testInfrastructure env_down world0)))) =
     [(''Docker containers issue'', []), (''Backend API not accessible'', []),
      (''Blockchain not accessible'', []), (''Frontend not accessible'', []),
      (''Registration error:'', [E (Error ''ECONNREFUSED'')]),
      (''Skipped (no test ID)'', []), (''Skipped (no test ID)'', []),
      (''Skipped (no test ID)'', [])] \<and>
   map entry_line [(''registration'', False), (''infoRetrieval'', False)] =
     [(''Registration: FAIL'', []), (''Info Retrieval: FAIL'', [])]"
  by (simp add: testInfrastructure_def docker_probe_def backend_probe_def blockchain_probe_def
      blockchain_block_def frontend_probe_def makeHTTPSRequest_def
      testCoreFeatures_def registration_probe_def registration_block_def
      infoRetrieval_probe_def documentUpload_probe_def documentRetrieval_probe_def
      guarded_def skipped_def makeRequest_def transmit_def say_def env_down_def world0_def
      entry_line_def testName_def upper_char_def is_upper_def)

subsection \<open>The orchestrator\<close>

text \<open>
  C3, as amended. Whatever the five stages are, no fault leaves the orchestrator: when a
  stage throws, the \<^verbatim>\<open>catch\<close> prints \<^verbatim>\<open>Health check failed\<close> with the fault and the run
  returns; the stages after it do not run and no final report is printed, not even for the
  stages that had completed. The final report is printed when all five stages have
  returned, and covers all five.
\<close>

theorem orchestrator_faults:
  "fst (orchestrate s1 s2 s3 s4 s5 w) \<noteq> Threw e' \<and>
   (s1 w = (Threw e, w1) \<longrightarrow>
      orchestrate s1 s2 s3 s4 s5 w = (Returned (), say (''Health check failed:'', [E e]) w1)) \<and>
   (s1 w = (Returned i, w1) \<and> s2 w1 = (Threw e, w2) \<longrightarrow>
      orchestrate s1 s2 s3 s4 s5 w = (Returned (), say (''Health check failed:'', [E e]) w2)) \<and>
   (s1 w = (Returned i, w1) \<and> s2 w1 = (Returned c, w2) \<and> s3 w2 = (Threw e, w3) \<longrightarrow>
      orchestrate s1 s2 s3 s4 s5 w = (Returned (), say (''Health check failed:'', [E e]) w3)) \<and>
   (s1 w = (Returned i, w1) \<and> s2 w1 = (Returned c, w2) \<and> s3 w2 = (Returned a, w3) \<and>
    s4 w3 = (Threw e, w4) \<longrightarrow>
      orchestrate s1 s2 s3 s4 s5 w = (Returned (), say (''Health check failed:'', [E e]) w4)) \<and>
   (s1 w = (Returned i, w1) \<and> s2 w1 = (Returned c, w2) \<and> s3 w2 = (Returned a, w3) \<and>
    s4 w3 = (Returned d, w4) \<and> s5 w4 = (Threw e, w5) \<longrightarrow>
      orchestrate s1 s2 s3 s4 s5 w = (Returned (), say (''Health check failed:'', [E e]) w5)) \<and>
   (s1 w = (Returned i, w1) \<and> s2 w1 = (Returned c, w2) \<and> s3 w2 = (Returned a, w3) \<and>
    s4 w3 = (Returned d, w4) \<and> s5 w4 = (Returned f, w5) \<longrightarrow>
      orchestrate s1 s2 s3 s4 s5 w =
        (Returned (), w5\<lparr>console := console w5 @ report_lines (allResults i c a d f)\<rparr>))"
proof -
  have "fst (orchestrate s1 s2 s3 s4 s5 w) \<noteq> Threw e'"
    by (simp add: orchestrate_def split: prod.splits completion.splits)
  then show ?thesis
    by (simp add: orchestrate_def orchestrate_try_def generateFinalReport_def)
qed

text \<open>
  C3 as stated fails. With a second stage that throws, after an infrastructure stage that
  completed, the console ends with the failure line and holds no report. And against a
  backend that resets the connection of the upload, the health check itself never returns:
  its console ends with the upload's error, and no report is printed.
\<close>

theorem orchestrator_counterexample:
  "orchestrate (testInfrastructure env_down) (stage_throws (Error ''boom''))
       (testAuthorityFeatures env_down) (testAdvancedFeatures env_down) (testFrontendPages env_down)
       world0 =
     (Returned (),
      world0\<lparr>net := [ApiCall ''GET'' ''/api/health'' None Null None,
                      ApiCall ''POST'' ''/api/tourist/register'' None
                        (Obj [(''name'', Str ''Health Check Tourist''), (''nationality'', Str ''Test'')])
                        None,
                      PageGet True ''/tourist-auth.html'', PageGet False ''/tourist-auth.html''],
              console := [(''Docker containers issue'', []), (''Backend API not accessible'', []),
                          (''Blockchain not accessible'', []), (''Frontend not accessible'', []),
                          (''Health check failed:'', [E (Error ''boom'')])]\<rparr>) \<and>
   fst (testInfrastructure env_down world0) =
     Returned [(''docker'', False), (''backend'', False), (''blockchain'', False), (''frontend'', False)] \<and>
   fst (runComprehensiveHealthCheck env_upload_reset world0) = Hung \<and>
   console (snd (runComprehensiveHealthCheck env_upload_reset world0)) =
     [(''Docker containers running and healthy'', []), (''Backend API responding'', []),
      (''Blockchain connected and responsive'', []), (''Frontend serving correctly'', []),
      (''Registration successful (ID: )'', [V (Str ''T1'')]), (''Info retrieval working'', []),
      (''Document upload error:'', [E (Error ''ECONNRESET'')])]"
  by (simp add: runComprehensiveHealthCheck_def orchestrate_def orchestrate_try_def
      stage_throws_def testInfrastructure_def testCoreFeatures_def docker_probe_def
      backend_probe_def blockchain_probe_def blockchain_block_def frontend_probe_def
      registration_probe_def registration_block_def infoRetrieval_probe_def
      documentUpload_probe_def get_block_def guarded_def makeRequest_def makeHTTPSRequest_def
      page_ok_def ok_success_def transmit_def say_def env_upload_reset_def env_down_def
      decode_def world0_def)

theorem orchestrator_faults_witness:
  "orchestrate (stage_throws (Error ''x'')) (stage_done []) (stage_done []) (stage_done []) (stage_done [])
       world0 = (Returned (), say (''Health check failed:'', [E (Error ''x'')]) world0) \<and>
   orchestrate (stage_done []) (stage_throws (Error ''x'')) (stage_done []) (stage_done []) (stage_done [])
       world0 = (Returned (), say (''Health check failed:'', [E (Error ''x'')]) world0) \<and>
   orchestrate (stage_done []) (stage_done []) (stage_throws (Error ''x'')) (stage_done []) (stage_done [])
       world0 = (Returned (), say (''Health check failed:'', [E (Error ''x'')]) world0) \<and>
   orchestrate (stage_done []) (stage_done []) (stage_done []) (stage_throws (Error ''x'')) (stage_done [])
       world0 = (Returned (), say (''Health check failed:'', [E (Error ''x'')]) world0) \<and>
   orchestrate (stage_done []) (stage_done []) (stage_done []) (stage_done []) (stage_throws (Error ''x''))
       world0 = (Returned (), say (''Health check failed:'', [E (Error ''x'')]) world0) \<and>
   orchestrate (stage_done [(''docker'', True)]) (stage_done []) (stage_done []) (stage_done [])
       (stage_done []) world0 =
     (Returned (),
      world0\<lparr>console := report_lines (allResults [(''docker'', True)] [] [] [] [])\<rparr>)"
proof -
  let ?t = "stage_throws (Error ''x'')" and ?d = "stage_done []"
  have t: "?t world0 = (Threw (Error ''x''), world0)"
    and d: "?d world0 = (Returned [], world0)"
    and d1: "stage_done [(''docker'', True)] world0 = (Returned [(''docker'', True)], world0)"
    by (simp_all add: stage_throws_def stage_done_def)
  show ?thesis
    using orchestrator_faults [where ?s1.0 = ?t and ?s2.0 = ?d and ?s3.0 = ?d and ?s4.0 = ?d
        and ?s5.0 = ?d and w = world0 and e = "Error ''x''" and ?w1.0 = world0]
      orchestrator_faults [where ?s1.0 = ?d and ?s2.0 = ?t and ?s3.0 = ?d and ?s4.0 = ?d
        and ?s5.0 = ?d and w = world0 and e = "Error ''x''" and ?w1.0 = world0 and ?w2.0 = world0
        and i = "[]"]
      orchestrator_faults [where ?s1.0 = ?d and ?s2.0 = ?d and ?s3.0 = ?t and ?s4.0 = ?d
        and ?s5.0 = ?d and w = world0 and e = "Error ''x''" and ?w1.0 = world0 and ?w2.0 = world0
        and ?w3.0 = world0 and i = "[]" and c = "[]"]
      orchestrator_faults [where ?s1.0 = ?d and ?s2.0 = ?d and ?s3.0 = ?d and ?s4.0 = ?t
        and ?s5.0 = ?d and w = world0 and e = "Error ''x''" and ?w1.0 = world0 and ?w2.0 = world0
        and ?w3.0 = world0 and ?w4.0 = world0 and i = "[]" and c = "[]" and a = "[]"]
      orchestrator_faults [where ?s1.0 = ?d and ?s2.0 = ?d and ?s3.0 = ?d and ?s4.0 = ?d
        and ?s5.0 = ?t and w = world0 and e = "Error ''x''" and ?w1.0 = world0 and ?w2.0 = world0
        and ?w3.0 = world0 and ?w4.0 = world0 and ?w5.0 = world0 and i = "[]" and c = "[]"
        and a = "[]" and d = "[]"]
      orchestrator_faults [where ?s1.0 = "stage_done [(''docker'', True)]" and ?s2.0 = ?d
        and ?s3.0 = ?d and ?s4.0 = ?d and ?s5.0 = ?d and w = world0 and ?w1.0 = world0
        and ?w2.0 = world0 and ?w3.0 = world0 and ?w4.0 = world0 and ?w5.0 = world0
        and i = "[(''docker'', True)]" and c = "[]" and a = "[]" and d = "[]" and f = "[]"]
      t d d1
    by (simp add: world0_def)
qed

subsection \<open>Bodies that do not decode\<close>

lemma makeRequest_undecodable:
  "undecodable ev w (ApiCall m p arg body token) st txt \<Longrightarrow>
     makeRequest ev m p arg body token w =
       (Inr \<lparr>status = st, data = Str txt, raw = txt\<rparr>,
        w\<lparr>net := net w @ [ApiCall m p arg body token]\<rparr>)"
  by (simp add: undecodable_def makeRequest_def transmit_def)

lemma makeRequest_flow_undecodable:
  "undecodable ev w (ApiCall m p arg body None) st txt \<Longrightarrow>
     makeRequest_flow ev m p arg body w =
       (Inl (Error (''Failed to parse response: '' @ txt)),
        w\<lparr>net := net w @ [ApiCall m p arg body None]\<rparr>)"
  by (simp add: undecodable_def makeRequest_flow_def transmit_def)

lemma ok_success_text: "ok_success \<lparr>status = st, data = Str txt, raw = txt\<rparr> = Inr False"
  by (simp add: ok_success_def)

lemma get_block_undecodable:
  "undecodable ev w (ApiCall ''GET'' p (Some (testUniqueId w)) Null None) st txt \<Longrightarrow>
     fst (get_block ev p need yes no w) = Inr (\<not> need \<and> st = 200)"
  by (cases "st = 200"; cases need)
     (simp_all add: get_block_def makeRequest_undecodable ok_success_text)

text \<open>
  C7, as amended. When the body of a response does not decode, \<^verbatim>\<open>makeRequest\<close> of the
  health check (and of \<^verbatim>\<open>test-all-features.js\<close>) still resolves, with the body's text as
  \<^verbatim>\<open>data\<close> (and as \<^verbatim>\<open>raw\<close>): no fault escapes and the text is kept in the response. A
  probe that tests \<^verbatim>\<open>data.success\<close> then records \<^verbatim>\<open>false\<close> (info retrieval, QR code); a probe
  that tests the status code alone records \<^verbatim>\<open>true\<close> exactly when the status is 200
  (document retrieval, card); the upload probe, which decodes the body itself, records
  \<^verbatim>\<open>false\<close>. In \<^verbatim>\<open>test-complete-flow.js\<close>, \<^verbatim>\<open>makeRequest\<close> rejects with an error whose
  message ends with the body's text; the probe catches it, prints it and returns \<^verbatim>\<open>false\<close>.
\<close>

theorem undecodable_body:
  "(undecodable ev w (ApiCall m p arg body token) st got \<longrightarrow>
      makeRequest ev m p arg body token w =
        (Inr \<lparr>status = st, data = Str got, raw = got\<rparr>,
         w\<lparr>net := net w @ [ApiCall m p arg body token]\<rparr>)) \<and>
   ok_success \<lparr>status = st, data = Str got, raw = got\<rparr> = Inr False \<and>
   (truthy (testUniqueId w) \<and>
    undecodable ev w (ApiCall ''GET'' ''/api/tourist/info/'' (Some (testUniqueId w)) Null None) st got \<longrightarrow>
      fst (infoRetrieval_probe ev (rs, w)) = assign ''infoRetrieval'' False rs) \<and>
   (truthy (testUniqueId w) \<and>
    undecodable ev w (ApiCall ''GET'' ''/api/tourist/qrcode/'' (Some (testUniqueId w)) Null None) st got \<longrightarrow>
      fst (qrCode_probe ev (rs, w)) = assign ''qrCode'' False rs) \<and>
   (truthy (testUniqueId w) \<and>
    undecodable ev w (ApiCall ''GET'' ''/api/tourist/documents/'' (Some (testUniqueId w)) Null None) st got \<longrightarrow>
      fst (documentRetrieval_probe ev (rs, w)) = assign ''documentRetrieval'' (st = 200) rs) \<and>
   (truthy (testUniqueId w) \<and>
    undecodable ev w (ApiCall ''GET'' ''/api/tourist/pvc-card/'' (Some (testUniqueId w)) Null None) st got \<longrightarrow>
      fst (pvcCard_probe ev (rs, w)) = assign ''pvcCard'' (st = 200) rs) \<and>
   (truthy (testUniqueId w) \<and>
    undecodable ev w (FormSubmit (testUniqueId w) ''test-document.txt'') st got \<longrightarrow>
      fst (documentUpload_probe ev (rs, w)) = Returned (assign ''documentUpload'' False rs)) \<and>
   (undecodable ev w register_request st got \<longrightarrow>
      fst (registration_probe ev (rs, w)) = assign ''registration'' False rs) \<and>
   (undecodable ev w login_request st got \<longrightarrow>
      fst (authorityLogin_probe ev (rs, w)) = assign ''authorityLogin'' False rs) \<and>
   (truthy (testUniqueId w) \<and> truthy (authToken w) \<and> undecodable ev w (verify_request w) st got \<longrightarrow>
      fst (verification_probe ev (rs, w)) = assign ''verification'' False rs) \<and>
   (undecodable ev w (pending_request w) st got \<longrightarrow>
      fst (pendingList_probe ev (rs, w)) = assign ''pendingList'' (st = 200) rs) \<and>
   (undecodable ev w health_request st got \<longrightarrow>
      fst (backend_probe ev (rs, w)) = assign ''backend'' True rs) \<and>
   (undecodable ev w (ApiCall m p arg body None) st got \<longrightarrow>
      makeRequest_flow ev m p arg body w =
        (Inl (Error (''Failed to parse response: '' @ got)),
         w\<lparr>net := net w @ [ApiCall m p arg body None]\<rparr>)) \<and>
   (undecodable ev w (ApiCall ''GET'' ''/api/tourist/info/'' (Some (testUniqueId w)) Null None) st got \<longrightarrow>
      testInfoRetrieval ev w =
        (False,
         say (''Info retrieval error:'', [E (Error (''Failed to parse response: '' @ got))])
           (w\<lparr>net := net w @ [ApiCall ''GET'' ''/api/tourist/info/'' (Some (testUniqueId w)) Null None]\<rparr>)))"
proof -
  have c1: "undecodable ev w (ApiCall m p arg body token) st got \<longrightarrow>
      makeRequest ev m p arg body token w =
        (Inr \<lparr>status = st, data = Str got, raw = got\<rparr>,
         w\<lparr>net := net w @ [ApiCall m p arg body token]\<rparr>)"
    by (simp add: makeRequest_undecodable)
  have c2: "ok_success \<lparr>status = st, data = Str got, raw = got\<rparr> = Inr False"
    by (rule ok_success_text)
  have c3: "truthy (testUniqueId w) \<and>
      undecodable ev w (ApiCall ''GET'' ''/api/tourist/info/'' (Some (testUniqueId w)) Null None) st got \<longrightarrow>
      fst (infoRetrieval_probe ev (rs, w)) = assign ''infoRetrieval'' False rs"
    by (auto simp: infoRetrieval_probe_def guarded_fst get_block_undecodable)
  have c4: "truthy (testUniqueId w) \<and>
      undecodable ev w (ApiCall ''GET'' ''/api/tourist/qrcode/'' (Some (testUniqueId w)) Null None) st got \<longrightarrow>
      fst (qrCode_probe ev (rs, w)) = assign ''qrCode'' False rs"
    by (auto simp: qrCode_probe_def guarded_fst get_block_undecodable)
  have c5: "truthy (testUniqueId w) \<and>
      undecodable ev w (ApiCall ''GET'' ''/api/tourist/documents/'' (Some (testUniqueId w)) Null None) st got \<longrightarrow>
      fst (documentRetrieval_probe ev (rs, w)) = assign ''documentRetrieval'' (st = 200) rs"
    by (auto simp: documentRetrieval_probe_def guarded_fst get_block_undecodable)
  have c6: "truthy (testUniqueId w) \<and>
      undecodable ev w (ApiCall ''GET'' ''/api/tourist/pvc-card/'' (Some (testUniqueId w)) Null None) st got \<longrightarrow>
      fst (pvcCard_probe ev (rs, w)) = assign ''pvcCard'' (st = 200) rs"
    by (auto simp: pvcCard_probe_def guarded_fst get_block_undecodable)
  have c7: "truthy (testUniqueId w) \<and>
      undecodable ev w (FormSubmit (testUniqueId w) ''test-document.txt'') st got \<longrightarrow>
      fst (documentUpload_probe ev (rs, w)) = Returned (assign ''documentUpload'' False rs)"
    by (simp add: documentUpload_probe_def undecodable_def transmit_def split: option.splits)
  have c8: "undecodable ev w register_request st got \<longrightarrow>
      fst (registration_probe ev (rs, w)) = assign ''registration'' False rs"
    by (simp add: register_request_def registration_probe_def registration_block_def guarded_fst
        makeRequest_undecodable ok_success_text)
  have c9: "undecodable ev w login_request st got \<longrightarrow>
      fst (authorityLogin_probe ev (rs, w)) = assign ''authorityLogin'' False rs"
    by (simp add: login_request_def authorityLogin_probe_def authorityLogin_block_def guarded_fst
        makeRequest_undecodable ok_success_text)
  have c10: "truthy (testUniqueId w) \<and> truthy (authToken w) \<and>
      undecodable ev w (verify_request w) st got \<longrightarrow>
      fst (verification_probe ev (rs, w)) = assign ''verification'' False rs"
    by (auto simp: verify_request_def verification_probe_def verification_block_def guarded_fst
        makeRequest_undecodable ok_success_text)
  have c11: "undecodable ev w (pending_request w) st got \<longrightarrow>
      fst (pendingList_probe ev (rs, w)) = assign ''pendingList'' (st = 200) rs"
    by (simp add: pending_request_def pendingList_probe_def pendingList_block_def guarded_fst
        makeRequest_undecodable)
  have c12: "undecodable ev w health_request st got \<longrightarrow>
      fst (backend_probe ev (rs, w)) = assign ''backend'' True rs"
    by (simp add: health_request_def backend_probe_def makeRequest_undecodable)
  have c13: "undecodable ev w (ApiCall m p arg body None) st got \<longrightarrow>
      makeRequest_flow ev m p arg body w =
        (Inl (Error (''Failed to parse response: '' @ got)),
         w\<lparr>net := net w @ [ApiCall m p arg body None]\<rparr>)"
    by (simp add: makeRequest_flow_undecodable)
  have c14: "undecodable ev w (ApiCall ''GET'' ''/api/tourist/info/'' (Some (testUniqueId w)) Null None) st got \<longrightarrow>
      testInfoRetrieval ev w =
        (False,
         say (''Info retrieval error:'', [E (Error (''Failed to parse response: '' @ got))])
           (w\<lparr>net := net w @ [ApiCall ''GET'' ''/api/tourist/info/'' (Some (testUniqueId w)) Null None]\<rparr>))"
    by (simp add: testInfoRetrieval_def caught_def info_block_def makeRequest_flow_undecodable)
  show ?thesis
    by (intro conjI c1 c2 c3 c4 c5 c6 c7 c8 c9 c10 c11 c12 c13 c14)
qed

theorem undecodable_body_witness:
  "undecodable env_pdf (world0\<lparr>testUniqueId := Str ''T1''\<rparr>)
       (ApiCall ''GET'' ''/api/tourist/pvc-card/'' (Some (Str ''T1'')) Null None) 200 ''%PDF-1.4'' \<and>
   makeRequest env_pdf ''GET'' ''/api/tourist/pvc-card/'' (Some (Str ''T1'')) Null None
       (world0\<lparr>testUniqueId := Str ''T1''\<rparr>) =
     (Inr \<lparr>status = 200, data = Str ''%PDF-1.4'', raw = ''%PDF-1.4''\<rparr>,
      world0\<lparr>testUniqueId := Str ''T1'',
             net := [ApiCall ''GET'' ''/api/tourist/pvc-card/'' (Some (Str ''T1'')) Null None]\<rparr>) \<and>
   makeRequest_flow env_pdf ''GET'' ''/api/tourist/pvc-card/'' (Some (Str ''T1'')) Null
       (world0\<lparr>testUniqueId := Str ''T1''\<rparr>) =
     (Inl (Error ''Failed to parse response: %PDF-1.4''),
      world0\<lparr>testUniqueId := Str ''T1'',
             net := [ApiCall ''GET'' ''/api/tourist/pvc-card/'' (Some (Str ''T1'')) Null None]\<rparr>) \<and>
   fst (infoRetrieval_probe env_pdf ([], world0\<lparr>testUniqueId := Str ''T1''\<rparr>)) = [(''infoRetrieval'', False)] \<and>
   fst (qrCode_probe env_pdf ([], world0\<lparr>testUniqueId := Str ''T1''\<rparr>)) = [(''qrCode'', False)] \<and>
   fst (documentRetrieval_probe env_pdf ([], world0\<lparr>testUniqueId := Str ''T1''\<rparr>)) =
     [(''documentRetrieval'', True)] \<and>
   fst (pvcCard_probe env_pdf ([], world0\<lparr>testUniqueId := Str ''T1''\<rparr>)) = [(''pvcCard'', True)] \<and>
   fst (documentUpload_probe env_pdf ([], world0\<lparr>testUniqueId := Str ''T1''\<rparr>)) =
     Returned [(''documentUpload'', False)] \<and>
   fst (testInfoRetrieval env_pdf (world0\<lparr>testUniqueId := Str ''T1''\<rparr>)) = False \<and>
   fst (registration_probe env_gateway ([], world0\<lparr>testUniqueId := Str ''T1'', authToken := Str ''K1''\<rparr>)) =
     [(''registration'', False)] \<and>
   fst (authorityLogin_probe env_gateway ([], world0\<lparr>testUniqueId := Str ''T1'', authToken := Str ''K1''\<rparr>)) =
     [(''authorityLogin'', False)] \<and>
   fst (verification_probe env_gateway ([], world0\<lparr>testUniqueId := Str ''T1'', authToken := Str ''K1''\<rparr>)) =
     [(''verification'', False)] \<and>
   fst (pendingList_probe env_gateway ([], world0\<lparr>testUniqueId := Str ''T1'', authToken := Str ''K1''\<rparr>)) =
     [(''pendingList'', False)] \<and>
   fst (backend_probe env_gateway ([], world0\<lparr>testUniqueId := Str ''T1'', authToken := Str ''K1''\<rparr>)) =
     [(''backend'', True)]"
proof -
  let ?w = "world0\<lparr>testUniqueId := Str ''T1''\<rparr>"
  have u: "\<And>rq. \<not> is_register rq \<Longrightarrow> undecodable env_pdf ?w rq 200 ''%PDF-1.4''"
    by (auto simp: undecodable_def env_pdf_def decode_def is_register_def split: request.splits)
  have t: "truthy (testUniqueId ?w)" "testUniqueId ?w = Str ''T1''" "net ?w = []"
    by (simp_all add: world0_def)
  let ?w2 = "world0\<lparr>testUniqueId := Str ''T1'', authToken := Str ''K1''\<rparr>"
  have u2: "\<And>rq. undecodable env_gateway ?w2 rq 502 ''<html>Bad Gateway</html>''"
    by (simp add: undecodable_def env_gateway_def decode_def)
  have t2: "truthy (testUniqueId ?w2)" "truthy (authToken ?w2)"
    by (simp_all add: world0_def)
  show ?thesis
    using undecodable_body [where ev = env_pdf and w = "?w" and st = 200 and got = "''%PDF-1.4''"
        and rs = "[]" and m = "''GET''" and p = "''/api/tourist/pvc-card/''"
        and arg = "Some (Str ''T1'')" and body = Null and token = None]
      u [of "ApiCall ''GET'' ''/api/tourist/pvc-card/'' (Some (Str ''T1'')) Null None"]
      u [of "ApiCall ''GET'' ''/api/tourist/info/'' (Some (Str ''T1'')) Null None"]
      u [of "ApiCall ''GET'' ''/api/tourist/qrcode/'' (Some (Str ''T1'')) Null None"]
      u [of "ApiCall ''GET'' ''/api/tourist/documents/'' (Some (Str ''T1'')) Null None"]
      u [of "FormSubmit (Str ''T1'') ''test-document.txt''"]
      t
      undecodable_body [where ev = env_gateway and w = "?w2" and st = 502
        and got = "''<html>Bad Gateway</html>''" and rs = "[]"]
      u2 t2
    by (simp add: is_register_def)
qed

text \<open>
  C7 as stated fails. Against a backend that registers the tourist and answers everything
  else with status 200 and a PDF, which \<^verbatim>\<open>JSON.parse\<close> rejects, the first four stages of
  the health check record the backend health, the document retrieval, the pending list and
  the card as passed.
\<close>

theorem undecodable_counterexample:
  "decode ''%PDF-1.4'' = None \<and>
   fst (testInfrastructure env_pdf world0) =
     Returned [(''docker'', True), (''backend'', True), (''blockchain'', True), (''frontend'', False)] \<and>
   fst (testCoreFeatures env_pdf (snd (testInfrastructure env_pdf world0))) =
     Returned [(''registration'', True), (''infoRetrieval'', False), (''documentUpload'', False),
               (''documentRetrieval'', True)] \<and>
   fst (testAuthorityFeatures env_pdf
          (snd (testCoreFeatures env_pdf (snd (testInfrastructure env_pdf world0))))) =
     Returned [(''authorityLogin'', False), (''pendingList'', True), (''verification'', False)] \<and>
   fst (testAdvancedFeatures env_pdf
          (snd (testAuthorityFeatures env_pdf
             (snd (testCoreFeatures env_pdf (snd (testInfrastructure env_pdf world0))))))) =
     Returned [(''qrCode'', False), (''pvcCard'', True)]"
  by (simp add: testInfrastructure_def docker_probe_def backend_probe_def blockchain_probe_def
      blockchain_block_def frontend_probe_def makeHTTPSRequest_def page_ok_def
      testCoreFeatures_def testAdvancedFeatures_def testAuthorityFeatures_def
      authorityLogin_probe_def authorityLogin_block_def pendingList_probe_def
      pendingList_block_def verification_probe_def registration_probe_def
      registration_block_def infoRetrieval_probe_def documentUpload_probe_def
      documentRetrieval_probe_def qrCode_probe_def pvcCard_probe_def get_block_def
      guarded_def skipped_def makeRequest_def ok_success_def transmit_def say_def env_pdf_def
      decode_def world0_def)

subsection \<open>The Run Context\<close>

lemma getp_field: "truthy (field v k) \<Longrightarrow> getp v k' = Inr (field v k')"
  by (cases v) (simp_all add: field_def)

lemma makeRequest_resolved:
  "makeRequest ev m p arg body token w = (Inr r, w') \<Longrightarrow>
     \<exists>got. server ev (net w) (ApiCall m p arg body token) = Response (status r) got \<and>
           (JSON_parse ev got = Some (data r) \<or> JSON_parse ev got = None \<and> data r = Str got)"
  by (auto simp: makeRequest_def transmit_def split: reply.splits option.splits)

lemma ok_success_true:
  "ok_success r = Inr True \<Longrightarrow> status r = 200 \<and> truthy (field (data r) ''success'')"
  by (auto simp: ok_success_def field_def split: if_splits sum.splits)

lemma success_carries_id:
  assumes "issues_ids ev"
    and "makeRequest ev ''POST'' ''/api/tourist/register'' None body None w = (Inr r, w')"
    and "ok_success r = Inr True"
    and "getp (data r) ''uniqueId'' = Inr u"
  shows "truthy u"
proof -
  obtain got where g: "server ev (net w) (ApiCall ''POST'' ''/api/tourist/register'' None body None) =
      Response (status r) got"
    and d: "JSON_parse ev got = Some (data r) \<or> JSON_parse ev got = None \<and> data r = Str got"
    using makeRequest_resolved [OF assms(2)] by blast
  have s: "status r = 200" "truthy (field (data r) ''success'')"
    using ok_success_true [OF assms(3)] by simp_all
  have "JSON_parse ev got = Some (data r)"
    using d s(2) by (auto simp: field_def)
  then have "truthy (field (data r) ''uniqueId'')"
    using assms(1) g s unfolding issues_ids_def by metis
  then show ?thesis
    using assms(4) by (simp add: field_def)
qed

lemma success_carries_token:
  assumes "issues_tokens ev"
    and "makeRequest ev ''POST'' ''/api/authority/login'' None body None w = (Inr r, w')"
    and "ok_success r = Inr True"
    and "getp (data r) ''token'' = Inr u"
  shows "truthy u"
proof -
  obtain got where g: "server ev (net w) (ApiCall ''POST'' ''/api/authority/login'' None body None) =
      Response (status r) got"
    and d: "JSON_parse ev got = Some (data r) \<or> JSON_parse ev got = None \<and> data r = Str got"
    using makeRequest_resolved [OF assms(2)] by blast
  have s: "status r = 200" "truthy (field (data r) ''success'')"
    using ok_success_true [OF assms(3)] by simp_all
  have "JSON_parse ev got = Some (data r)"
    using d s(2) by (auto simp: field_def)
  then have "truthy (field (data r) ''token'')"
    using assms(1) g s unfolding issues_tokens_def by metis
  then show ?thesis
    using assms(4) by (simp add: field_def)
qed

lemma registration_block_context:
  "registration_block ev w = (res, w') \<Longrightarrow>
     authToken w' = authToken w \<and>
     (issues_ids ev \<longrightarrow> truthy (testUniqueId w) \<longrightarrow> truthy (testUniqueId w'))"
  by (auto simp: registration_block_def say_def split: prod.splits sum.splits bool.splits
      dest: makeRequest_world success_carries_id)

lemma blockchain_block_context:
  "blockchain_block ev w = (res, w') \<Longrightarrow>
     authToken w' = authToken w \<and>
     (issues_ids ev \<longrightarrow> truthy (testUniqueId w) \<longrightarrow> truthy (testUniqueId w'))"
  by (auto simp: blockchain_block_def say_def split: prod.splits sum.splits bool.splits
      dest: makeRequest_world success_carries_id)

lemma authorityLogin_block_context:
  "authorityLogin_block ev w = (res, w') \<Longrightarrow>
     testUniqueId w' = testUniqueId w \<and>
     (issues_tokens ev \<longrightarrow> truthy (authToken w) \<longrightarrow> truthy (authToken w'))"
  by (auto simp: authorityLogin_block_def say_def split: prod.splits sum.splits bool.splits
      dest: makeRequest_world success_carries_token)


lemma guarded_context:
  "guarded k msg block (rs, w) = (rs', w') \<Longrightarrow>
     \<exists>res w''. block w = (res, w'') \<and> testUniqueId w' = testUniqueId w'' \<and>
                authToken w' = authToken w''"
  by (auto simp: guarded_def say_def split: prod.splits sum.splits)

lemma docker_probe_context:
  "docker_probe ev (rs, w) = (rs', w') \<Longrightarrow>
     testUniqueId w' = testUniqueId w \<and> authToken w' = authToken w"
  by (auto simp: docker_probe_def say_def split: prod.splits if_splits)

lemma backend_probe_context:
  "backend_probe ev (rs, w) = (rs', w') \<Longrightarrow>
     testUniqueId w' = testUniqueId w \<and> authToken w' = authToken w"
  by (auto simp: backend_probe_def say_def split: prod.splits sum.splits if_splits
      dest!: makeRequest_world)

lemma blockchain_probe_context:
  "blockchain_probe ev (rs, w) = (rs', w') \<Longrightarrow>
     authToken w' = authToken w \<and>
     (issues_ids ev \<longrightarrow> truthy (testUniqueId w) \<longrightarrow> truthy (testUniqueId w'))"
  by (auto simp: blockchain_probe_def say_def split: prod.splits sum.splits
      dest!: blockchain_block_context)

lemma makeHTTPSRequest_context:
  "makeHTTPSRequest ev p w = (res, w') \<Longrightarrow>
     testUniqueId w' = testUniqueId w \<and> authToken w' = authToken w"
  by (auto simp: makeHTTPSRequest_def transmit_def split: reply.splits)

lemma frontend_probe_context:
  "frontend_probe ev (rs, w) = (rs', w') \<Longrightarrow>
     testUniqueId w' = testUniqueId w \<and> authToken w' = authToken w"
  by (auto simp: frontend_probe_def say_def split: prod.splits sum.splits if_splits
      dest!: makeHTTPSRequest_context)

lemma page_probe_context:
  "page_probe ev pg (rs, w) = (rs', w') \<Longrightarrow>
     testUniqueId w' = testUniqueId w \<and> authToken w' = authToken w"
  by (cases pg) (auto simp: page_probe_def say_def split: prod.splits sum.splits if_splits
      dest!: makeHTTPSRequest_context)

lemma fold_page_probe_context:
  "fold (page_probe ev) pgs (rs, w) = (rs', w') \<Longrightarrow>
     testUniqueId w' = testUniqueId w \<and> authToken w' = authToken w"
proof (induction pgs arbitrary: rs w)
  case Nil
  then show ?case by simp
next
  case (Cons pg pgs)
  obtain rs1 w1 where s: "page_probe ev pg (rs, w) = (rs1, w1)"
    by (cases "page_probe ev pg (rs, w)")
  with Cons.prems have "fold (page_probe ev) pgs (rs1, w1) = (rs', w')" by simp
  then show ?case
    using Cons.IH page_probe_context [OF s] by simp
qed

lemma registration_probe_context:
  "registration_probe ev (rs, w) = (rs', w') \<Longrightarrow>
     authToken w' = authToken w \<and>
     (issues_ids ev \<longrightarrow> truthy (testUniqueId w) \<longrightarrow> truthy (testUniqueId w'))"
  by (auto simp: registration_probe_def dest!: guarded_context registration_block_context)

lemma infoRetrieval_probe_context:
  "infoRetrieval_probe ev (rs, w) = (rs', w') \<Longrightarrow>
     testUniqueId w' = testUniqueId w \<and> authToken w' = authToken w"
  by (auto simp: infoRetrieval_probe_def skipped_world split: if_splits dest!: guarded_get_world)

lemma documentRetrieval_probe_context:
  "documentRetrieval_probe ev (rs, w) = (rs', w') \<Longrightarrow>
     testUniqueId w' = testUniqueId w \<and> authToken w' = authToken w"
  by (auto simp: documentRetrieval_probe_def skipped_world split: if_splits dest!: guarded_get_world)

lemma documentUpload_probe_context:
  "documentUpload_probe ev (rs, w) = (res, w') \<Longrightarrow>
     testUniqueId w' = testUniqueId w \<and> authToken w' = authToken w"
  by (auto simp: documentUpload_probe_def skipped_world transmit_def say_def
      split: if_splits reply.splits option.splits sum.splits)

lemma authorityLogin_probe_context:
  "authorityLogin_probe ev (rs, w) = (rs', w') \<Longrightarrow>
     testUniqueId w' = testUniqueId w \<and>
     (issues_tokens ev \<longrightarrow> truthy (authToken w) \<longrightarrow> truthy (authToken w'))"
  by (auto simp: authorityLogin_probe_def dest!: guarded_context authorityLogin_block_context)

lemma testInfrastructure_context:
  "authToken (snd (testInfrastructure ev w)) = authToken w \<and>
   (issues_ids ev \<longrightarrow> truthy (testUniqueId w) \<longrightarrow> truthy (testUniqueId (snd (testInfrastructure ev w))))"
proof -
  obtain r1 w1 where p1: "docker_probe ev ([], w) = (r1, w1)" by (cases "docker_probe ev ([], w)")
  obtain r2 w2 where p2: "backend_probe ev (r1, w1) = (r2, w2)" by (cases "backend_probe ev (r1, w1)")
  obtain r3 w3 where p3: "blockchain_probe ev (r2, w2) = (r3, w3)" by (cases "blockchain_probe ev (r2, w2)")
  obtain r4 w4 where p4: "frontend_probe ev (r3, w3) = (r4, w4)" by (cases "frontend_probe ev (r3, w3)")
  show ?thesis
    using docker_probe_context [OF p1] backend_probe_context [OF p2]
      blockchain_probe_context [OF p3] frontend_probe_context [OF p4]
    by (simp add: testInfrastructure_def p1 p2 p3 p4)
qed

lemma testCoreFeatures_context:
  "authToken (snd (testCoreFeatures ev w)) = authToken w \<and>
   (issues_ids ev \<longrightarrow> truthy (testUniqueId w) \<longrightarrow> truthy (testUniqueId (snd (testCoreFeatures ev w))))"
proof -
  obtain r1 w1 where p1: "registration_probe ev ([], w) = (r1, w1)"
    by (cases "registration_probe ev ([], w)")
  obtain r2 w2 where p2: "infoRetrieval_probe ev (r1, w1) = (r2, w2)"
    by (cases "infoRetrieval_probe ev (r1, w1)")
  obtain c3 w3 where p3: "documentUpload_probe ev (r2, w2) = (c3, w3)"
    by (cases "documentUpload_probe ev (r2, w2)")
  have k: "authToken w3 = authToken w \<and>
      (issues_ids ev \<longrightarrow> truthy (testUniqueId w) \<longrightarrow> truthy (testUniqueId w3))"
    using registration_probe_context [OF p1] infoRetrieval_probe_context [OF p2]
      documentUpload_probe_context [OF p3] by simp
  show ?thesis
  proof (cases c3)
    case (Returned r3)
    obtain r4 w4 where p4: "documentRetrieval_probe ev (r3, w3) = (r4, w4)"
      by (cases "documentRetrieval_probe ev (r3, w3)")
    show ?thesis
      using k documentRetrieval_probe_context [OF p4]
      by (simp add: testCoreFeatures_def p1 p2 p3 p4 Returned)
  next
    case (Threw e)
    then show ?thesis using k by (simp add: testCoreFeatures_def p1 p2 p3)
  next
    case Hung
    then show ?thesis using k by (simp add: testCoreFeatures_def p1 p2 p3)
  qed
qed

lemma testAuthorityFeatures_context:
  "testUniqueId (snd (testAuthorityFeatures ev w)) = testUniqueId w \<and>
   (issues_tokens ev \<longrightarrow> truthy (authToken w) \<longrightarrow> truthy (authToken (snd (testAuthorityFeatures ev w))))"
proof -
  obtain r1 w1 where p1: "authorityLogin_probe ev ([], w) = (r1, w1)"
    by (cases "authorityLogin_probe ev ([], w)")
  obtain r2 w2 where p2: "pendingList_probe ev (r1, w1) = (r2, w2)"
    by (cases "pendingList_probe ev (r1, w1)")
  obtain r3 w3 where p3: "verification_probe ev (r2, w2) = (r3, w3)"
    by (cases "verification_probe ev (r2, w2)")
  show ?thesis
    using authorityLogin_probe_context [OF p1] pendingList_probe_world [OF p2]
      verification_probe_world [OF p3]
    by (simp add: testAuthorityFeatures_def p1 p2 p3)
qed

lemma testAdvancedFeatures_context:
  "testUniqueId (snd (testAdvancedFeatures ev w)) = testUniqueId w \<and>
   authToken (snd (testAdvancedFeatures ev w)) = authToken w"
proof -
  obtain r1 w1 where p1: "qrCode_probe ev ([], w) = (r1, w1)" by (cases "qrCode_probe ev ([], w)")
  obtain r2 w2 where p2: "pvcCard_probe ev (r1, w1) = (r2, w2)" by (cases "pvcCard_probe ev (r1, w1)")
  show ?thesis
    using qrCode_probe_world [OF p1] pvcCard_probe_world [OF p2]
    by (simp add: testAdvancedFeatures_def p1 p2)
qed

lemma testFrontendPages_context:
  "testUniqueId (snd (testFrontendPages ev w)) = testUniqueId w \<and>
   authToken (snd (testFrontendPages ev w)) = authToken w"
proof -
  obtain r w' where p: "fold (page_probe ev) pages ([], w) = (r, w')"
    by (cases "fold (page_probe ev) pages ([], w)")
  show ?thesis
    using fold_page_probe_context [OF p] by (simp add: testFrontendPages_def p)
qed


lemma orchestrate_keeps:
  assumes s1: "\<And>w. P w \<Longrightarrow> P (snd (s1 w))"
    and s2: "\<And>w. P w \<Longrightarrow> P (snd (s2 w))"
    and s3: "\<And>w. P w \<Longrightarrow> P (snd (s3 w))"
    and s4: "\<And>w. P w \<Longrightarrow> P (snd (s4 w))"
    and s5: "\<And>w. P w \<Longrightarrow> P (snd (s5 w))"
    and con: "\<And>w c. P (w\<lparr>console := c\<rparr>) = P w"
    and w: "P w"
  shows "P (snd (orchestrate s1 s2 s3 s4 s5 w))"
proof -
  obtain c1 w1 where e1: "s1 w = (c1, w1)" by (cases "s1 w")
  obtain c2 w2 where e2: "s2 w1 = (c2, w2)" by (cases "s2 w1")
  obtain c3 w3 where e3: "s3 w2 = (c3, w3)" by (cases "s3 w2")
  obtain c4 w4 where e4: "s4 w3 = (c4, w4)" by (cases "s4 w3")
  obtain c5 w5 where e5: "s5 w4 = (c5, w5)" by (cases "s5 w4")
  have p1: "P w1" using s1 [OF w] e1 by simp
  have p2: "P w2" using s2 [OF p1] e2 by simp
  have p3: "P w3" using s3 [OF p2] e3 by simp
  have p4: "P w4" using s4 [OF p3] e4 by simp
  have p5: "P w5" using s5 [OF p4] e5 by simp
  have t5: "P (snd (case await (s5 w4) (\<lambda>f w5. (Returned (), generateFinalReport i c a d f w5)) of
        (Threw e, w') \<Rightarrow> (Returned (), say (''Health check failed:'', [E e]) w')
      | (Returned u, w') \<Rightarrow> (Returned u, w')
      | (Hung, w') \<Rightarrow> (Hung, w')))" for i c a d
    using p5 by (cases c5) (simp_all add: e5 generateFinalReport_def say_def con)
  have t4: "P (snd (case await (s4 w3) (\<lambda>d w4. await (s5 w4)
          (\<lambda>f w5. (Returned (), generateFinalReport i c a d f w5))) of
        (Threw e, w') \<Rightarrow> (Returned (), say (''Health check failed:'', [E e]) w')
      | (Returned u, w') \<Rightarrow> (Returned u, w')
      | (Hung, w') \<Rightarrow> (Hung, w')))" for i c a
    using p4 t5 by (cases c4) (simp_all add: e4 say_def con)
  have t3: "P (snd (case await (s3 w2) (\<lambda>a w3. await (s4 w3) (\<lambda>d w4. await (s5 w4)
          (\<lambda>f w5. (Returned (), generateFinalReport i c a d f w5)))) of
        (Threw e, w') \<Rightarrow> (Returned (), say (''Health check failed:'', [E e]) w')
      | (Returned u, w') \<Rightarrow> (Returned u, w')
      | (Hung, w') \<Rightarrow> (Hung, w')))" for i c
    using p3 t4 by (cases c3) (simp_all add: e3 say_def con)
  have t2: "P (snd (case await (s2 w1) (\<lambda>c w2. await (s3 w2) (\<lambda>a w3. await (s4 w3)
          (\<lambda>d w4. await (s5 w4) (\<lambda>f w5. (Returned (), generateFinalReport i c a d f w5))))) of
        (Threw e, w') \<Rightarrow> (Returned (), say (''Health check failed:'', [E e]) w')
      | (Returned u, w') \<Rightarrow> (Returned u, w')
      | (Hung, w') \<Rightarrow> (Hung, w')))" for i
    using p2 t3 by (cases c2) (simp_all add: e2 say_def con)
  show ?thesis
    using p1 t2 by (cases c1) (simp_all add: orchestrate_def orchestrate_try_def e1 say_def con)
qed

lemma run_keeps_id:
  assumes "issues_ids ev" and "truthy (testUniqueId w)"
  shows "truthy (testUniqueId (snd (runComprehensiveHealthCheck ev w)))"
  unfolding runComprehensiveHealthCheck_def
  using assms(2)
proof (rule orchestrate_keeps [where P = "\<lambda>w. truthy (testUniqueId w)", rotated -1])
  show "truthy (testUniqueId (snd (testInfrastructure ev w)))" if "truthy (testUniqueId w)" for w
    using testInfrastructure_context [of ev w] assms(1) that by simp
  show "truthy (testUniqueId (snd (testCoreFeatures ev w)))" if "truthy (testUniqueId w)" for w
    using testCoreFeatures_context [of ev w] assms(1) that by simp
  show "truthy (testUniqueId (snd (testAuthorityFeatures ev w)))" if "truthy (testUniqueId w)" for w
    using testAuthorityFeatures_context [of ev w] that by simp
  show "truthy (testUniqueId (snd (testAdvancedFeatures ev w)))" if "truthy (testUniqueId w)" for w
    using testAdvancedFeatures_context [of ev w] that by simp
  show "truthy (testUniqueId (snd (testFrontendPages ev w)))" if "truthy (testUniqueId w)" for w
    using testFrontendPages_context [of ev w] that by simp
  show "truthy (testUniqueId (w\<lparr>console := c\<rparr>)) = truthy (testUniqueId w)" for w c
    by simp
qed

lemma run_keeps_token:
  assumes "issues_tokens ev" and "truthy (authToken w)"
  shows "truthy (authToken (snd (runComprehensiveHealthCheck ev w)))"
  unfolding runComprehensiveHealthCheck_def
  using assms(2)
proof (rule orchestrate_keeps [where P = "\<lambda>w. truthy (authToken w)", rotated -1])
  show "truthy (authToken (snd (testInfrastructure ev w)))" if "truthy (authToken w)" for w
    using testInfrastructure_context [of ev w] that by simp
  show "truthy (authToken (snd (testCoreFeatures ev w)))" if "truthy (authToken w)" for w
    using testCoreFeatures_context [of ev w] that by simp
  show "truthy (authToken (snd (testAuthorityFeatures ev w)))" if "truthy (authToken w)" for w
    using testAuthorityFeatures_context [of ev w] assms(1) that by simp
  show "truthy (authToken (snd (testAdvancedFeatures ev w)))" if "truthy (authToken w)" for w
    using testAdvancedFeatures_context [of ev w] that by simp
  show "truthy (authToken (snd (testFrontendPages ev w)))" if "truthy (authToken w)" for w
    using testFrontendPages_context [of ev w] that by simp
  show "truthy (authToken (w\<lparr>console := c\<rparr>)) = truthy (authToken w)" for w c
    by simp
qed

text \<open>
  C9, as amended. No operation of the health check clears a key of the Run Context. The
  stages other than the infrastructure and the core stage (whose registrations write it)
  leave \<^verbatim>\<open>testUniqueId\<close> as it is, and the stages other than the authority stage (whose
  login writes it) leave \<^verbatim>\<open>authToken\<close> as it is. A registration (a login) that succeeds
  overwrites the key with the \<^verbatim>\<open>uniqueId\<close> (\<^verbatim>\<open>token\<close>) of the response, as it is. So a key
  that is set stays set through every stage and through the whole run, provided that the
  backend's successful registrations (logins) carry a truthy \<^verbatim>\<open>uniqueId\<close> (\<^verbatim>\<open>token\<close>).
\<close>

theorem context_keys_stay:
  "(issues_ids ev \<and> truthy (testUniqueId w) \<longrightarrow>
      truthy (testUniqueId (snd (testInfrastructure ev w))) \<and>
      truthy (testUniqueId (snd (testCoreFeatures ev w))) \<and>
      truthy (testUniqueId (snd (runComprehensiveHealthCheck ev w)))) \<and>
   (issues_tokens ev \<and> truthy (authToken w) \<longrightarrow>
      truthy (authToken (snd (testAuthorityFeatures ev w))) \<and>
      truthy (authToken (snd (runComprehensiveHealthCheck ev w)))) \<and>
   testUniqueId (snd (testAuthorityFeatures ev w)) = testUniqueId w \<and>
   testUniqueId (snd (testAdvancedFeatures ev w)) = testUniqueId w \<and>
   testUniqueId (snd (testFrontendPages ev w)) = testUniqueId w \<and>
   authToken (snd (testInfrastructure ev w)) = authToken w \<and>
   authToken (snd (testCoreFeatures ev w)) = authToken w \<and>
   authToken (snd (testAdvancedFeatures ev w)) = authToken w \<and>
   authToken (snd (testFrontendPages ev w)) = authToken w \<and>
   (server ev (net w) register_request = Response 200 got \<and> JSON_parse ev got = Some v \<and>
    truthy (field v ''success'') \<longrightarrow>
      testUniqueId (snd (registration_probe ev (rs, w))) = field v ''uniqueId'') \<and>
   (server ev (net w) login_request = Response 200 got \<and> JSON_parse ev got = Some v \<and>
    truthy (field v ''success'') \<longrightarrow>
      authToken (snd (authorityLogin_probe ev (rs, w))) = field v ''token'')"
proof -
  have keep: "(issues_ids ev \<and> truthy (testUniqueId w) \<longrightarrow>
      truthy (testUniqueId (snd (testInfrastructure ev w))) \<and>
      truthy (testUniqueId (snd (testCoreFeatures ev w))) \<and>
      truthy (testUniqueId (snd (runComprehensiveHealthCheck ev w)))) \<and>
   (issues_tokens ev \<and> truthy (authToken w) \<longrightarrow>
      truthy (authToken (snd (testAuthorityFeatures ev w))) \<and>
      truthy (authToken (snd (runComprehensiveHealthCheck ev w)))) \<and>
   testUniqueId (snd (testAuthorityFeatures ev w)) = testUniqueId w \<and>
   testUniqueId (snd (testAdvancedFeatures ev w)) = testUniqueId w \<and>
   testUniqueId (snd (testFrontendPages ev w)) = testUniqueId w \<and>
   authToken (snd (testInfrastructure ev w)) = authToken w \<and>
   authToken (snd (testCoreFeatures ev w)) = authToken w \<and>
   authToken (snd (testAdvancedFeatures ev w)) = authToken w \<and>
   authToken (snd (testFrontendPages ev w)) = authToken w"
    using testInfrastructure_context [of ev w] testCoreFeatures_context [of ev w]
      testAuthorityFeatures_context [of ev w] testAdvancedFeatures_context [of ev w]
      testFrontendPages_context [of ev w] run_keeps_id [of ev w] run_keeps_token [of ev w]
    by blast
  have reg: "testUniqueId (snd (registration_probe ev (rs, w))) = field v ''uniqueId''"
    if a: "server ev (net w) register_request = Response 200 got \<and> JSON_parse ev got = Some v \<and>
      truthy (field v ''success'')"
  proof -
    from a have t: "truthy (field v ''success'')" by simp
    have s: "getp v ''success'' = Inr (field v ''success'')"
      and u: "getp v ''uniqueId'' = Inr (field v ''uniqueId'')"
      by (rule getp_field [OF t])+
    show ?thesis
      using a s u
      by (simp add: registration_probe_def guarded_def registration_block_def makeRequest_def
          transmit_def ok_success_def register_request_def say_def)
  qed
  have login: "authToken (snd (authorityLogin_probe ev (rs, w))) = field v ''token''"
    if a: "server ev (net w) login_request = Response 200 got \<and> JSON_parse ev got = Some v \<and>
      truthy (field v ''success'')"
  proof -
    from a have t: "truthy (field v ''success'')" by simp
    have s: "getp v ''success'' = Inr (field v ''success'')"
      and u: "getp v ''token'' = Inr (field v ''token'')"
      by (rule getp_field [OF t])+
    show ?thesis
      using a s u
      by (simp add: authorityLogin_probe_def guarded_def authorityLogin_block_def makeRequest_def
          transmit_def ok_success_def login_request_def say_def)
  qed
  show ?thesis
    using keep reg login by blast
qed

text \<open>
  C9 as stated fails. Against a backend whose second successful registration carries no
  \<^verbatim>\<open>uniqueId\<close>, the infrastructure stage sets \<^verbatim>\<open>testUniqueId\<close> and the core stage's
  registration overwrites it with \<^verbatim>\<open>undefined\<close>: the key is absent again.
\<close>

theorem context_keys_counterexample:
  "testUniqueId (snd (testInfrastructure env_forgetful world0)) = Str ''T1'' \<and>
   truthy (Str ''T1'') \<and>
   testUniqueId (snd (testCoreFeatures env_forgetful (snd (testInfrastructure env_forgetful world0)))) =
     Undefined \<and>
   \<not> truthy Undefined"
  by (simp add: testInfrastructure_def testCoreFeatures_def docker_probe_def backend_probe_def
      blockchain_probe_def blockchain_block_def frontend_probe_def registration_probe_def
      registration_block_def infoRetrieval_probe_def documentUpload_probe_def
      documentRetrieval_probe_def guarded_def skipped_def makeRequest_def makeHTTPSRequest_def
      ok_success_def transmit_def say_def env_forgetful_def is_register_def decode_def world0_def)

theorem context_keys_stay_witness:
  "issues_ids env_ok \<and> issues_tokens env_ok \<and>
   truthy (testUniqueId (snd (testInfrastructure env_ok world0))) \<and>
   truthy (authToken (snd (testAuthorityFeatures env_ok world0))) \<and>
   truthy (testUniqueId (snd (testCoreFeatures env_ok (snd (testInfrastructure env_ok world0))))) \<and>
   truthy (testUniqueId (snd (runComprehensiveHealthCheck env_ok (snd (testInfrastructure env_ok world0))))) \<and>
   truthy (authToken (snd (testAuthorityFeatures env_ok (snd (testAuthorityFeatures env_ok world0))))) \<and>
   truthy (authToken (snd (runComprehensiveHealthCheck env_ok (snd (testAuthorityFeatures env_ok world0))))) \<and>
   testUniqueId (snd (registration_probe env_ok ([], world0))) = Str ''T1'' \<and>
   authToken (snd (authorityLogin_probe env_ok ([], world0))) = Str ''K1''"
proof -
  have r: \<open>server env_ok (net world0) register_request = Response 200 ''{"success":true,"uniqueId":"T1"}'' \<and>
      JSON_parse env_ok ''{"success":true,"uniqueId":"T1"}'' =
        Some (Obj [(''success'', Bool True), (''uniqueId'', Str ''T1'')]) \<and>
      truthy (field (Obj [(''success'', Bool True), (''uniqueId'', Str ''T1'')]) ''success'') \<and>
      field (Obj [(''success'', Bool True), (''uniqueId'', Str ''T1'')]) ''uniqueId'' = Str ''T1''\<close>
    by (simp add: env_ok_def register_request_def world0_def decode_def field_def)
  have l: \<open>server env_ok (net world0) login_request = Response 200 ''{"success":true,"token":"K1"}'' \<and>
      JSON_parse env_ok ''{"success":true,"token":"K1"}'' =
        Some (Obj [(''success'', Bool True), (''token'', Str ''K1'')]) \<and>
      truthy (field (Obj [(''success'', Bool True), (''token'', Str ''K1'')]) ''success'') \<and>
      field (Obj [(''success'', Bool True), (''token'', Str ''K1'')]) ''token'' = Str ''K1''\<close>
    by (simp add: env_ok_def login_request_def world0_def decode_def field_def)
  have i: "issues_ids env_ok"
    by (auto simp: issues_ids_def env_ok_def decode_def field_def split: if_splits)
  have t: "issues_tokens env_ok"
    by (auto simp: issues_tokens_def env_ok_def decode_def field_def split: if_splits)
  have a: "truthy (testUniqueId (snd (testInfrastructure env_ok world0)))"
    by (simp add: testInfrastructure_def docker_probe_def backend_probe_def
        blockchain_probe_def blockchain_block_def frontend_probe_def makeRequest_def
        makeHTTPSRequest_def ok_success_def transmit_def say_def env_ok_def decode_def world0_def)
  have b: "truthy (authToken (snd (testAuthorityFeatures env_ok world0)))"
    by (simp add: testAuthorityFeatures_def authorityLogin_probe_def authorityLogin_block_def
        pendingList_probe_def pendingList_block_def verification_probe_def skipped_def
        guarded_def makeRequest_def ok_success_def transmit_def say_def env_ok_def decode_def
        world0_def)
  have c: "truthy (testUniqueId (snd (testCoreFeatures env_ok (snd (testInfrastructure env_ok world0))))) \<and>
      truthy (testUniqueId (snd (runComprehensiveHealthCheck env_ok (snd (testInfrastructure env_ok world0)))))"
    using i a context_keys_stay [where ev = env_ok and w = "snd (testInfrastructure env_ok world0)"]
    by blast
  have d: "truthy (authToken (snd (testAuthorityFeatures env_ok (snd (testAuthorityFeatures env_ok world0))))) \<and>
      truthy (authToken (snd (runComprehensiveHealthCheck env_ok (snd (testAuthorityFeatures env_ok world0)))))"
    using t b context_keys_stay [where ev = env_ok and w = "snd (testAuthorityFeatures env_ok world0)"]
    by blast
  have e: "testUniqueId (snd (registration_probe env_ok ([], world0))) = Str ''T1''"
    using r context_keys_stay [where ev = env_ok and w = world0 and rs = "[]"
        and v = "Obj [(''success'', Bool True), (''uniqueId'', Str ''T1'')]"]
    by metis
  have f: "authToken (snd (authorityLogin_probe env_ok ([], world0))) = Str ''K1''"
    using l context_keys_stay [where ev = env_ok and w = world0 and rs = "[]"
        and v = "Obj [(''success'', Bool True), (''token'', Str ''K1'')]"]
    by metis
  show ?thesis
    using i t a b c d e f by blast
qed

subsection \<open>The tier of the final report\<close>

text \<open>
  What rounding to 53 bits does to a numerator \<open>N\<close>, with \<open>h\<close> the unit in the last place:
  the result is a multiple of \<open>h\<close> within \<open>h / 2\<close> of \<open>N\<close>, and \<open>N\<close> is below \<open>2^53\<close> units.
\<close>

lemma round53_facts:
  fixes N :: nat
  defines "h \<equiv> 2 ^ (floorlog 2 N - 53)"
  shows "h dvd round53 N" and "2 * round53 N \<le> 2 * N + h" and "2 * N \<le> 2 * round53 N + h"
    and "N < h * 2 ^ 53"
proof -
  define q where "q = N div h"
  define r where "r = N mod h"
  have hpos: "0 < h" by (simp add: h_def)
  have N: "N = q * h + r" by (simp add: q_def r_def)
  have r: "r < h" using hpos by (simp add: r_def)
  have R: "round53 N = (if h < 2 * r \<or> (2 * r = h \<and> odd q) then (q + 1) * h else q * h)"
    by (simp add: round53_def Let_def h_def q_def r_def)
  show "h dvd round53 N" by (simp add: R)
  have e: "(q + 1) * h = q * h + h" by (simp add: algebra_simps)
  show "2 * round53 N \<le> 2 * N + h"
    unfolding R using N r by (auto simp: e)
  show "2 * N \<le> 2 * round53 N + h"
    unfolding R using N r by (auto simp: e)
  show "N < h * 2 ^ 53"
  proof (cases "N = 0")
    case True
    then show ?thesis using hpos by simp
  next
    case False
    then have "N < 2 ^ floorlog 2 N"
      using floorlog_bounds [of N 2] by simp
    also have "\<dots> \<le> 2 ^ (floorlog 2 N - 53 + 53)"
      by (rule power_increasing) simp_all
    also have "\<dots> = h * 2 ^ 53"
      by (simp add: h_def power_add)
    finally show ?thesis .
  qed
qed

lemma round53_unit_bound:
  assumes "N < 2 ^ (k + 53)"
  shows "(2::nat) ^ (floorlog 2 N - 53) \<le> 2 ^ k" and "(2::nat) ^ (floorlog 2 N - 53) dvd 2 ^ (k + j)"
proof -
  have "floorlog 2 N \<le> k + 53"
    using assms by (simp add: floorlog_le_iff)
  then have s: "floorlog 2 N - 53 \<le> k" by simp
  then show "(2::nat) ^ (floorlog 2 N - 53) \<le> 2 ^ k"
    by (simp add: power_increasing)
  show "(2::nat) ^ (floorlog 2 N - 53) dvd 2 ^ (k + j)"
    using s by (simp add: le_imp_power_dvd)
qed

lemma dvd_gap:
  fixes h P R :: nat
  assumes "h dvd P" and "h dvd R" and "P < R"
  shows "P + h \<le> R"
proof -
  have "h dvd R - P" using assms by (simp add: dvd_diff_nat)
  moreover have "0 < R - P" using assms by simp
  ultimately have "h \<le> R - P" by (rule dvd_imp_le)
  then show ?thesis using assms by simp
qed

lemma excellent_iff:
  fixes total passed :: nat
  assumes "0 < total" and "total < 2 ^ 50"
  shows "round53 (total * 3602879701896397) \<le> passed * 2 ^ 52 \<longleftrightarrow> 4 * total \<le> 5 * passed"
proof -
  define N where "N = total * 3602879701896397"
  define h :: nat where "h = 2 ^ (floorlog 2 N - 53)"
  define R where "R = round53 N"
  define P where "P = passed * 2 ^ 52"
  have N5: "5 * N = total * 18014398509481984 + total" by (simp add: N_def)
  have "N < 2 ^ 50 * 2 ^ 52"
    unfolding N_def using assms(2) by (intro mult_strict_mono) simp_all
  then have Nb: "N < 2 ^ (49 + 53)" by (simp add: power_add [symmetric])
  have hb: "h \<le> 562949953421312"
    using round53_unit_bound(1) [OF Nb] by (simp add: h_def)
  have "h dvd 2 ^ (49 + 3)"
    unfolding h_def by (rule round53_unit_bound(2) [OF Nb])
  then have hP: "h dvd P" by (simp add: P_def)
  have hR: "h dvd R" and up: "2 * R \<le> 2 * N + h" and lo: "2 * N \<le> 2 * R + h"
    and Nh: "N < h * 9007199254740992"
    using round53_facts [of N] by (simp_all add: h_def R_def)
  have P: "P = passed * 4503599627370496" by (simp add: P_def)
  have gap: "P < R \<Longrightarrow> P + h \<le> R" using dvd_gap [OF hP hR] .
  have "R \<le> P \<longleftrightarrow> 4 * total \<le> 5 * passed"
  proof
    assume "R \<le> P"
    show "4 * total \<le> 5 * passed"
    proof (rule ccontr)
      assume "\<not> 4 * total \<le> 5 * passed"
      then have "5 * passed + 1 \<le> 4 * total" by simp
      then show False using \<open>R \<le> P\<close> lo hb N5 P by linarith
    qed
  next
    assume a: "4 * total \<le> 5 * passed"
    show "R \<le> P"
    proof (rule ccontr)
      assume "\<not> R \<le> P"
      then have "P + h \<le> R" using gap by simp
      then show False using a up Nh N5 P by linarith
    qed
  qed
  then show ?thesis by (simp add: R_def P_def N_def)
qed


lemma good_iff:
  fixes total passed :: nat
  assumes "0 < total" and "total < 2 ^ 50"
  shows "round53 (total * 5404319552844595) \<le> passed * 2 ^ 53 \<longleftrightarrow> 3 * total \<le> 5 * passed"
proof -
  define N where "N = total * 5404319552844595"
  define h :: nat where "h = 2 ^ (floorlog 2 N - 53)"
  define R where "R = round53 N"
  define P where "P = passed * 2 ^ 53"
  have N5: "5 * N + total = total * 27021597764222976" by (simp add: N_def)
  have "N < 2 ^ 50 * 2 ^ 53"
    unfolding N_def using assms(2) by (intro mult_strict_mono) simp_all
  then have Nb: "N < 2 ^ (50 + 53)" by (simp add: power_add [symmetric])
  have hb: "h \<le> 1125899906842624"
    using round53_unit_bound(1) [OF Nb] by (simp add: h_def)
  have "h dvd 2 ^ (50 + 3)"
    unfolding h_def by (rule round53_unit_bound(2) [OF Nb])
  then have hP: "h dvd P" by (simp add: P_def)
  have hR: "h dvd R" and up: "2 * R \<le> 2 * N + h" and lo: "2 * N \<le> 2 * R + h"
    using round53_facts [of N] by (simp_all add: h_def R_def)
  have P: "P = passed * 9007199254740992" by (simp add: P_def)
  have T: "total < 1125899906842624" using assms(2) by simp
  have gap: "P < R \<Longrightarrow> P + h \<le> R" using dvd_gap [OF hP hR] .
  have "R \<le> P \<longleftrightarrow> 3 * total \<le> 5 * passed"
  proof
    assume "R \<le> P"
    show "3 * total \<le> 5 * passed"
    proof (rule ccontr)
      assume "\<not> 3 * total \<le> 5 * passed"
      then have "5 * passed + 1 \<le> 3 * total" by simp
      then show False using \<open>R \<le> P\<close> lo hb N5 P T by linarith
    qed
  next
    assume a: "3 * total \<le> 5 * passed"
    show "R \<le> P"
    proof (rule ccontr)
      assume "\<not> R \<le> P"
      then have "P + h \<le> R" using gap by simp
      then show False using a up N5 P assms(1) by linarith
    qed
  qed
  then show ?thesis by (simp add: R_def P_def N_def)
qed

lemma times_0_8_le: "times_0_8 n \<le> of_nat p \<longleftrightarrow> round53 (n * 3602879701896397) \<le> p * 2 ^ 52"
proof -
  have "times_0_8 n \<le> of_nat p \<longleftrightarrow>
      (of_nat (round53 (n * 3602879701896397)) :: rat) \<le> of_nat p * 2 ^ 52"
    by (simp add: times_0_8_def pos_divide_le_eq)
  also have "\<dots> \<longleftrightarrow> (of_nat (round53 (n * 3602879701896397)) :: rat) \<le> of_nat (p * 2 ^ 52)"
    by simp
  also have "\<dots> \<longleftrightarrow> round53 (n * 3602879701896397) \<le> p * 2 ^ 52"
    by (rule of_nat_le_iff)
  finally show ?thesis .
qed

lemma times_0_6_le: "times_0_6 n \<le> of_nat p \<longleftrightarrow> round53 (n * 5404319552844595) \<le> p * 2 ^ 53"
proof -
  have "times_0_6 n \<le> of_nat p \<longleftrightarrow>
      (of_nat (round53 (n * 5404319552844595)) :: rat) \<le> of_nat p * 2 ^ 53"
    by (simp add: times_0_6_def pos_divide_le_eq)
  also have "\<dots> \<longleftrightarrow> (of_nat (round53 (n * 5404319552844595)) :: rat) \<le> of_nat (p * 2 ^ 53)"
    by simp
  also have "\<dots> \<longleftrightarrow> round53 (n * 5404319552844595) \<le> p * 2 ^ 53"
    by (rule of_nat_le_iff)
  finally show ?thesis .
qed

lemma ratio_ge:
  fixes total passed a :: nat
  assumes "0 < total"
  shows "(of_nat a :: rat) / 10 \<le> of_nat passed / of_nat total \<longleftrightarrow> a * total \<le> 10 * passed"
proof -
  have "(of_nat a :: rat) / 10 \<le> of_nat passed / of_nat total \<longleftrightarrow>
      (of_nat a :: rat) * of_nat total \<le> 10 * of_nat passed"
    using assms by (simp add: field_simps)
  also have "\<dots> \<longleftrightarrow> (of_nat (a * total) :: rat) \<le> of_nat (10 * passed)"
    by simp
  also have "\<dots> \<longleftrightarrow> a * total \<le> 10 * passed"
    by (rule of_nat_le_iff)
  finally show ?thesis .
qed

text \<open>What the nested loop leaves in the two counters.\<close>

lemma fold_count_entry:
  "fold count_entry rs (t, p) = (t + length rs, p + length (filter snd rs))"
  by (induction rs arbitrary: t p) (auto simp: count_entry_def)

lemma fold_count_categories:
  "fold (\<lambda>(category, rs). fold count_entry rs) al (t, p) =
     (t + length (entries al), p + length (filter snd (entries al)))"
  by (induction al arbitrary: t p) (auto simp: entries_def fold_count_entry)

lemma totalTests_entries: "totalTests al = length (entries al)"
  by (simp add: totalTests_def count_tests_def fold_count_categories)

lemma passedTests_entries: "passedTests al = length (filter snd (entries al))"
  by (simp add: passedTests_def count_tests_def fold_count_categories)

text \<open>
  The lines of the categories end in a colon or in \<^verbatim>\<open>PASS\<close> or \<^verbatim>\<open>FAIL\<close>, whatever the names
  of the categories and of the probes are: none of them is the line of a tier.
\<close>

lemma category_line_last:
  "l \<in> set (category_lines c) \<Longrightarrow> last (fst l) \<in> {CHR '':'', CHR ''S'', CHR ''L''}"
  by (cases c) (auto simp: category_lines_def entry_line_def split: if_splits)

lemma category_lines_last:
  "l \<in> set (concat (map category_lines al)) \<Longrightarrow> last (fst l) \<in> {CHR '':'', CHR ''S'', CHR ''L''}"
  by (auto dest: category_line_last)

lemma tier_line_printed:
  "(tier_line t' \<in> set (report_lines al)) = (tier_of (passedTests al) (totalTests al) = t')"
proof -
  have "tier_line t' \<notin> set (concat (map category_lines al))"
    using category_lines_last [of "tier_line t'" al]
    by (cases t') (auto simp: tier_line_def)
  then show ?thesis
    by (cases t'; cases "tier_of (passedTests al) (totalTests al)")
       (simp_all add: report_lines_def tier_line_def)
qed

text \<open>
  C5. Take a final report with \<open>total > 0\<close> recorded outcomes, \<open>passed\<close> of them passing
  (\<^verbatim>\<open>true\<close>). The report prints the line \<^verbatim>\<open>EXCELLENT! ...\<close> exactly when \<open>passed / total\<close> is
  at least 0.8, the line \<^verbatim>\<open>GOOD! ...\<close> exactly when it is at least 0.6 and below 0.8, and
  the line \<^verbatim>\<open>NEEDS ATTENTION: ...\<close> exactly when it is below 0.6; both lower bounds are
  inclusive: the comparisons of lines 508-514, made on doubles, decide exactly as the ratio
  does. The score line of the report carries the two counts. (The count is taken below
  \<open>2^50\<close>, about \<open>10^15\<close>: from about \<open>3.7 * 10^15\<close> entries on, the rounding of
  \<^verbatim>\<open>totalTests * 0.6\<close> to a double can put a count on the wrong side of the threshold.)
\<close>

theorem tier_thresholds:
  fixes total passed :: nat
  assumes "total = length (entries al)" and "passed = length (filter snd (entries al))"
    and "0 < total" and "total < 2 ^ 50"
  shows "((''EXCELLENT! Your project is running successfully!'', []) \<in> set (report_lines al) \<longleftrightarrow>
       (8 :: rat) / 10 \<le> of_nat passed / of_nat total) \<and>
    ((''GOOD! Most features are working correctly.'', []) \<in> set (report_lines al) \<longleftrightarrow>
       (6 :: rat) / 10 \<le> of_nat passed / of_nat total \<and> of_nat passed / of_nat total < (8 :: rat) / 10) \<and>
    ((''NEEDS ATTENTION: Several components need fixing.'', []) \<in> set (report_lines al) \<longleftrightarrow>
       of_nat passed / of_nat total < (6 :: rat) / 10) \<and>
    (''OVERALL SCORE: tests passed'', [V (Num (of_nat passed)), V (Num (of_nat total))])
      \<in> set (report_lines al) \<and>
    console (generateFinalReport i c a d f w) = console w @ report_lines (allResults i c a d f) \<and>
    entries (allResults i c a d f) = i @ c @ a @ d @ f"
proof -
  have T: "totalTests al = total" and P: "passedTests al = passed"
    using assms(1,2) by (simp_all add: totalTests_entries passedTests_entries)
  have e: "times_0_8 total \<le> of_nat passed \<longleftrightarrow> (8 :: rat) / 10 \<le> of_nat passed / of_nat total"
    using excellent_iff [OF assms(3,4), of passed] ratio_ge [OF assms(3), of 8 passed]
    by (simp add: times_0_8_le)
  have g: "times_0_6 total \<le> of_nat passed \<longleftrightarrow> (6 :: rat) / 10 \<le> of_nat passed / of_nat total"
    using good_iff [OF assms(3,4), of passed] ratio_ge [OF assms(3), of 6 passed]
    by (simp add: times_0_6_le)
  have o: "(8 :: rat) / 10 \<le> of_nat passed / of_nat total \<Longrightarrow>
      (6 :: rat) / 10 \<le> of_nat passed / of_nat total"
    by simp
  have x: "(''EXCELLENT! Your project is running successfully!'', []) \<in> set (report_lines al) \<longleftrightarrow>
      tier_of passed total = Excellent"
    using tier_line_printed [of Excellent al] by (simp add: tier_line_def T P)
  have y: "(''GOOD! Most features are working correctly.'', []) \<in> set (report_lines al) \<longleftrightarrow>
      tier_of passed total = Good"
    using tier_line_printed [of Good al] by (simp add: tier_line_def T P)
  have z: "(''NEEDS ATTENTION: Several components need fixing.'', []) \<in> set (report_lines al) \<longleftrightarrow>
      tier_of passed total = NeedsAttention"
    using tier_line_printed [of NeedsAttention al] by (simp add: tier_line_def T P)
  have s: "(''OVERALL SCORE: tests passed'', [V (Num (of_nat passed)), V (Num (of_nat total))])
      \<in> set (report_lines al)"
    by (simp add: report_lines_def T P)
  have r: "console (generateFinalReport i c a d f w) = console w @ report_lines (allResults i c a d f)"
    by (simp add: generateFinalReport_def)
  have n: "entries (allResults i c a d f) = i @ c @ a @ d @ f"
    by (simp add: entries_def allResults_def)
  have t: "(tier_of passed total = Excellent \<longleftrightarrow> (8 :: rat) / 10 \<le> of_nat passed / of_nat total) \<and>
    (tier_of passed total = Good \<longleftrightarrow>
       (6 :: rat) / 10 \<le> of_nat passed / of_nat total \<and> of_nat passed / of_nat total < (8 :: rat) / 10) \<and>
    (tier_of passed total = NeedsAttention \<longleftrightarrow> of_nat passed / of_nat total < (6 :: rat) / 10)"
    using o by (auto simp: tier_of_def e g not_le)
  show ?thesis
    using t s r n by (simp only: x y z)
qed

theorem tier_thresholds_witness:
  "(''EXCELLENT! Your project is running successfully!'', []) \<in>
     set (report_lines (allResults
       [(''docker'', True), (''backend'', True), (''blockchain'', True), (''frontend'', True)]
       [(''registration'', False)] [] [] [])) \<and>
   (''GOOD! Most features are working correctly.'', []) \<in>
     set (report_lines (allResults
       [(''docker'', True), (''backend'', True), (''blockchain'', True), (''frontend'', False)]
       [(''registration'', False)] [] [] [])) \<and>
   (''NEEDS ATTENTION: Several components need fixing.'', []) \<in>
     set (report_lines (allResults
       [(''docker'', True), (''backend'', True), (''blockchain'', False), (''frontend'', False)]
       [(''registration'', False)] [] [] [])) \<and>
   (''EXCELLENT! Your project is running successfully!'', []) \<notin>
     set (report_lines (allResults
       [(''docker'', True), (''backend'', True), (''blockchain'', True), (''frontend'', False)]
       [(''registration'', False)] [] [] []))"
proof -
  let ?a4 = "allResults [(''docker'', True), (''backend'', True), (''blockchain'', True), (''frontend'', True)]
       [(''registration'', False)] [] [] []"
  let ?a3 = "allResults [(''docker'', True), (''backend'', True), (''blockchain'', True), (''frontend'', False)]
       [(''registration'', False)] [] [] []"
  let ?a2 = "allResults [(''docker'', True), (''backend'', True), (''blockchain'', False), (''frontend'', False)]
       [(''registration'', False)] [] [] []"
  have e4: "(5 :: nat) = length (entries ?a4)" "(4 :: nat) = length (filter snd (entries ?a4))"
    and e3: "(5 :: nat) = length (entries ?a3)" "(3 :: nat) = length (filter snd (entries ?a3))"
    and e2: "(5 :: nat) = length (entries ?a2)" "(2 :: nat) = length (filter snd (entries ?a2))"
    by (simp_all add: entries_def allResults_def)
  have b: "(0 :: nat) < 5" "(5 :: nat) < 2 ^ 50"
    by simp_all
  show ?thesis
    using tier_thresholds [OF e4 b] tier_thresholds [OF e3 b] tier_thresholds [OF e2 b]
    by simp
qed

end
